theory Spec2Isabelle
  imports Complex_Main
begin

section \<open>Training and evaluation loop with best-model selection (main0.py)\<close>

text \<open>
  The development embeds \<^verbatim>\<open>src/main0.py\<close>: the dataset and model lookups, the
  training pass \<^verbatim>\<open>train\<close>, the evaluation pass \<^verbatim>\<open>test\<close> and the epoch loop of
  \<^verbatim>\<open>main\<close> with its best-model tracking and the two CSV reports.

  Python exceptions are values of type \<open>error\<close>. A computation with effects takes the
  state and returns a pair of its outcome (\<open>Inl\<close> the exception, \<open>Inr\<close> the value) and the
  state reached, so that what a failing run has already written stays visible.

  The collaborators that are not part of the file (the torchfm datasets and models,
  the optimizer, the loss, \<^verbatim>\<open>r2_score\<close>, \<^verbatim>\<open>torch.randperm\<close>) are the fields of
  an environment record. Floating-point numbers are modelled as reals.
  Text written to standard output and the progress bar are not modelled.

  A call into a library is taken to return, except where a definition below says that
  it raises: stacking an empty list, metrics of two arrays of different lengths, a
  loader with a batch size that is not positive, a split whose lengths do not add up,
  a data frame made from an integer, and a table written under the wrong number of
  column names. The class \<^verbatim>\<open>EarlyStopper\<close> is never instantiated and the command-line
  entry point only supplies the arguments of \<^verbatim>\<open>main\<close>; neither is modelled.
\<close>

datatype error =
    ValueError string
  | AssertionError
  | UnboundLocalError string

subsection \<open>Dataset lookup: \<^verbatim>\<open>get_dataset\<close> (lines 35-47)\<close>

datatype dataset_class =
    MovieLens1MDataset
  | MovieLens20MDataset
  | CriteoDataset
  | AvazuDataset
  | FuxTower

text \<open>A dataset object is the class that was instantiated and the path it was given.\<close>

datatype dataset = Dataset dataset_class string

definition get_dataset :: "string \<Rightarrow> string \<Rightarrow> error + dataset" where
  "get_dataset name path =
     (if name = ''movielens1M'' then Inr (Dataset MovieLens1MDataset path)
      else if name = ''movielens20M'' then Inr (Dataset MovieLens20MDataset path)
      else if name = ''criteo'' then Inr (Dataset CriteoDataset path)
      else if name = ''avazu'' then Inr (Dataset AvazuDataset path)
      else if name = ''fuxtower'' then Inr (Dataset FuxTower path)
      else Inl (ValueError (''unknown dataset name: '' @ name)))"

definition dataset_names :: "string list" where
  "dataset_names = [''movielens1M'', ''movielens20M'', ''criteo'', ''avazu'', ''fuxtower'']"

subsection \<open>Model lookup: \<^verbatim>\<open>get_model\<close> (lines 50-104)\<close>

text \<open>The value of a keyword argument of a model constructor.\<close>

datatype hyper =
    HInt int
  | HReal real
  | HInts "int list"
  | HReals "real list"
  | HStr string
  | HBool bool

text \<open>
  A constructed model: the class name, the \<^verbatim>\<open>field_dims\<close> of the dataset and the
  keyword arguments in the order of the call.
\<close>

datatype model_spec = ModelSpec string "nat list" "(string \<times> hyper) list"

definition is_movielens :: "dataset \<Rightarrow> bool" where
  "is_movielens d =
     (case d of Dataset c _ \<Rightarrow> c = MovieLens20MDataset \<or> c = MovieLens1MDataset)"

text \<open>
  \<open>fd\<close> is \<^verbatim>\<open>dataset.field_dims\<close>, \<open>ufi\<close> and \<open>ifi\<close> are the dataset's
  \<^verbatim>\<open>user_field_idx\<close> and \<^verbatim>\<open>item_field_idx\<close>, and \<open>feature_dim\<close> is the module-level
  variable the entry point sets before it calls \<^verbatim>\<open>main\<close>.
\<close>

definition get_model ::
  "int \<Rightarrow> nat list \<Rightarrow> int list \<Rightarrow> int list \<Rightarrow> string \<Rightarrow> dataset \<Rightarrow> error + model_spec" where
  "get_model feature_dim fd ufi ifi name ds =
     (if name = ''dnn'' then
        Inr (ModelSpec ''DeepNeuralNetwork'' fd
          [(''embed_dim'', HInt 16), (''mlp_dims'', HInts [512, 256, 128]), (''dropout'', HReal 0.2)])
      else if name = ''rnn'' then
        Inr (ModelSpec ''RecurrentNeuralNetwork'' fd
          [(''feature_dims'', HInt feature_dim), (''hidden_size'', HInt 256),
           (''num_layers'', HInt 2), (''mlp_dims'', HInts [512, 256, 128]),
           (''dropout'', HReal 0.2)])
      else if name = ''lr'' then
        Inr (ModelSpec ''LogisticRegressionModel'' fd [])
      else if name = ''fm'' then
        Inr (ModelSpec ''FactorizationMachineModel'' fd [(''embed_dim'', HInt 16)])
      else if name = ''hofm'' then
        Inr (ModelSpec ''HighOrderFactorizationMachineModel'' fd
          [(''order'', HInt 3), (''embed_dim'', HInt 16)])
      else if name = ''ffm'' then
        Inr (ModelSpec ''FieldAwareFactorizationMachineModel'' fd [(''embed_dim'', HInt 4)])
      else if name = ''fnn'' then
        Inr (ModelSpec ''FactorizationSupportedNeuralNetworkModel'' fd
          [(''embed_dim'', HInt 16), (''mlp_dims'', HInts [16, 16]), (''dropout'', HReal 0.2)])
      else if name = ''wd'' then
        Inr (ModelSpec ''WideAndDeepModel'' fd
          [(''embed_dim'', HInt 16), (''mlp_dims'', HInts [16, 16]), (''dropout'', HReal 0.2)])
      else if name = ''ipnn'' then
        Inr (ModelSpec ''ProductNeuralNetworkModel'' fd
          [(''embed_dim'', HInt 16), (''mlp_dims'', HInts [16]), (''method'', HStr ''inner''),
           (''dropout'', HReal 0.2)])
      else if name = ''opnn'' then
        Inr (ModelSpec ''ProductNeuralNetworkModel'' fd
          [(''embed_dim'', HInt 16), (''mlp_dims'', HInts [16]), (''method'', HStr ''outer''),
           (''dropout'', HReal 0.2)])
      else if name = ''dcn'' then
        Inr (ModelSpec ''DeepCrossNetworkModel'' fd
          [(''embed_dim'', HInt 16), (''num_layers'', HInt 3), (''mlp_dims'', HInts [16, 16]),
           (''dropout'', HReal 0.2)])
      else if name = ''nfm'' then
        Inr (ModelSpec ''NeuralFactorizationMachineModel'' fd
          [(''embed_dim'', HInt 64), (''mlp_dims'', HInts [64]), (''dropouts'', HReals [0.2, 0.2])])
      else if name = ''ncf'' then
        (if is_movielens ds then
           Inr (ModelSpec ''NeuralCollaborativeFiltering'' fd
             [(''embed_dim'', HInt 16), (''mlp_dims'', HInts [16, 16]), (''dropout'', HReal 0.2),
              (''user_field_idx'', HInts ufi), (''item_field_idx'', HInts ifi)])
         else Inl AssertionError)
      else if name = ''fnfm'' then
        Inr (ModelSpec ''FieldAwareNeuralFactorizationMachineModel'' fd
          [(''embed_dim'', HInt 4), (''mlp_dims'', HInts [64]), (''dropouts'', HReals [0.2, 0.2])])
      else if name = ''dfm'' then
        Inr (ModelSpec ''DeepFactorizationMachineModel'' fd
          [(''embed_dim'', HInt 16), (''mlp_dims'', HInts [16, 16]), (''dropout'', HReal 0.2)])
      else if name = ''xdfm'' then
        Inr (ModelSpec ''ExtremeDeepFactorizationMachineModel'' fd
          [(''embed_dim'', HInt 16), (''cross_layer_sizes'', HInts [16, 16]),
           (''split_half'', HBool False), (''mlp_dims'', HInts [16, 16]), (''dropout'', HReal 0.2)])
      else if name = ''afm'' then
        Inr (ModelSpec ''AttentionalFactorizationMachineModel'' fd
          [(''embed_dim'', HInt 16), (''attn_size'', HInt 16), (''dropouts'', HReals [0.2, 0.2])])
      else if name = ''afi'' then
        Inr (ModelSpec ''AutomaticFeatureInteractionModel'' fd
          [(''embed_dim'', HInt 16), (''atten_embed_dim'', HInt 64), (''num_heads'', HInt 2),
           (''num_layers'', HInt 3), (''mlp_dims'', HInts [400, 400]), (''dropouts'', HInts [0, 0, 0])])
      else if name = ''afn'' then
        Inr (ModelSpec ''AdaptiveFactorizationNetwork'' fd
          [(''embed_dim'', HInt 16), (''LNN_dim'', HInt 1500), (''mlp_dims'', HInts [400, 400, 400]),
           (''dropouts'', HInts [0, 0, 0])])
      else Inl (ValueError (''unknown model name: '' @ name)))"


lemma get_dataset_unknown:
  "name \<notin> set dataset_names \<Longrightarrow>
     get_dataset name path = Inl (ValueError (''unknown dataset name: '' @ name))"
  by (simp add: get_dataset_def dataset_names_def)

lemma get_dataset_known:
  "name \<in> set dataset_names \<Longrightarrow> \<exists>c. get_dataset name path = Inr (Dataset c path)"
  by (auto simp: get_dataset_def dataset_names_def)


section \<open>The environment and the state\<close>

text \<open>
  The calls into torch, pandas and the file system, in the order in which they happen.
\<close>

datatype event =
    RandomSplit nat nat
  | ModelTrain
  | ModelEval
  | Forward
  | Criterion
  | ZeroGrad
  | Backward
  | OptimizerStep
  | TorchSave string
  | ToCsv string

text \<open>
  A CSV file as \<^verbatim>\<open>DataFrame.to_csv\<close> writes it: the header line, whether the index
  column is written, and the rows.
\<close>

record csv =
  header :: "string list"
  index_column :: bool
  rows :: "real list list"

text \<open>
  What a run of \<^verbatim>\<open>main\<close> leaves behind: the files written by \<^verbatim>\<open>torch.save\<close> (the
  snapshot holds the parameters of the model at the time of the call), the CSV files,
  and the trace of calls.
\<close>

record 'p world =
  checkpoints :: "string \<rightharpoonup> 'p"
  csv_files :: "string \<rightharpoonup> csv"
  trace :: "event list"

text \<open>
  The state of a run: the world, plus the model and optimizer objects. \<open>training\<close> is
  the mode flag of the module, set by \<^verbatim>\<open>model.train()\<close> and \<^verbatim>\<open>model.eval()\<close>.
\<close>

record ('p, 'g, 'o) state = "'p world" +
  params :: 'p
  grads :: 'g
  opt :: 'o
  training :: bool

text \<open>
  The collaborators. \<open>'x\<close> is the fields of one example, \<open>'p\<close> the parameters of a
  model, \<open>'g\<close> its accumulated gradients and \<open>'o\<close> the state of the optimizer.
  \<^item> \<open>load\<close>: the examples \<^verbatim>\<open>(fields, target)\<close> of a dataset object, in index order;
  \<^item> \<open>field_dims\<close>, \<open>user_field_idx\<close>, \<open>item_field_idx\<close>: attributes of a dataset object;
  \<^item> \<open>randperm n\<close>: the permutation \<^verbatim>\<open>torch.randperm(n)\<close> draws;
  \<^item> \<open>init_params\<close>: the parameters of a freshly constructed model;
  \<^item> \<open>init_opt p lr wd\<close>: \<^verbatim>\<open>torch.optim.Adam(params, lr, weight_decay)\<close>;
  \<^item> \<open>forward mode p fields\<close>: \<^verbatim>\<open>model(fields).tolist()\<close>, flattened, for a batch; the
    prediction is taken to be a function of the mode, the parameters and the fields
    (the random masks of dropout in training mode are not modelled);
  \<^item> \<open>criterion y target\<close>: the value of the SmoothL1 loss;
  \<^item> \<open>zero_grads\<close>: the gradients after \<^verbatim>\<open>model.zero_grad()\<close>;
  \<^item> \<open>backward p fields target g\<close>: the gradients after \<^verbatim>\<open>loss.backward()\<close>, which adds
    the gradient of this batch's loss to the accumulated gradients \<open>g\<close>;
  \<^item> \<open>optimizer_step o g p\<close>: the optimizer state and the parameters after
    \<^verbatim>\<open>optimizer.step()\<close>;
  \<^item> \<open>r2_score\<close>: sklearn's coefficient of determination.
\<close>

record ('x, 'p, 'g, 'o) env =
  load :: "dataset \<Rightarrow> ('x \<times> real) list"
  field_dims :: "dataset \<Rightarrow> nat list"
  user_field_idx :: "dataset \<Rightarrow> int list"
  item_field_idx :: "dataset \<Rightarrow> int list"
  randperm :: "nat \<Rightarrow> nat list"
  init_params :: "model_spec \<Rightarrow> 'p"
  init_opt :: "'p \<Rightarrow> real \<Rightarrow> real \<Rightarrow> 'o"
  forward :: "bool \<Rightarrow> 'p \<Rightarrow> 'x list \<Rightarrow> real list"
  criterion :: "real list \<Rightarrow> real list \<Rightarrow> real"
  zero_grads :: 'g
  backward :: "'p \<Rightarrow> 'x list \<Rightarrow> real list \<Rightarrow> 'g \<Rightarrow> 'g"
  optimizer_step :: "'o \<Rightarrow> 'g \<Rightarrow> 'p \<Rightarrow> 'o \<times> 'p"
  r2_score :: "real list \<Rightarrow> real list \<Rightarrow> real"

definition log_call :: "event \<Rightarrow> ('p, 'z) world_scheme \<Rightarrow> ('p, 'z) world_scheme" where
  "log_call ev s = s\<lparr>trace := trace s @ [ev]\<rparr>"

subsection \<open>Metrics\<close>

text \<open>
  \<^verbatim>\<open>np.hstack(np.array(xs))\<close> flattens the collected values; on an empty list numpy has
  nothing to concatenate and raises.
\<close>

definition hstack :: "real list \<Rightarrow> error + real list" where
  "hstack xs =
     (if xs = [] then Inl (ValueError ''need at least one array to concatenate'') else Inr xs)"

definition mean_absolute_error :: "real list \<Rightarrow> real list \<Rightarrow> real" where
  "mean_absolute_error ts ps = (\<Sum>(t, p) \<leftarrow> zip ts ps. \<bar>t - p\<bar>) / real (length ts)"

definition mean_squared_error :: "real list \<Rightarrow> real list \<Rightarrow> real" where
  "mean_squared_error ts ps = (\<Sum>(t, p) \<leftarrow> zip ts ps. (t - p)\<^sup>2) / real (length ts)"

text \<open>
  The last two lines of \<^verbatim>\<open>train\<close> and of \<^verbatim>\<open>test\<close>: both lists are stacked, targets
  first, and the returned tuple is (MAE, R2, MSE, targets, predictions). sklearn
  refuses two arrays of different lengths in the first metric it computes.
\<close>

type_synonym metrics = "real \<times> real \<times> real \<times> real list \<times> real list"

definition regression_metrics ::
  "('x, 'p, 'g, 'o) env \<Rightarrow> real list \<Rightarrow> real list \<Rightarrow> error + metrics" where
  "regression_metrics E targets predicts =
     (case hstack targets of
        Inl e \<Rightarrow> Inl e
      | Inr ts \<Rightarrow>
          (case hstack predicts of
             Inl e \<Rightarrow> Inl e
           | Inr ps \<Rightarrow>
               if length ts \<noteq> length ps
               then Inl (ValueError ''Found input variables with inconsistent numbers of samples'')
               else Inr (mean_absolute_error ts ps, r2_score E ts ps,
                         mean_squared_error ts ps, ts, ps)))"

subsection \<open>Data loaders\<close>

text \<open>
  \<^verbatim>\<open>DataLoader(dataset, batch_size)\<close> without shuffling: consecutive groups of
  \<open>batch_size\<close> examples, the last one shorter when the size does not divide.
  A batch is the list of the fields and the list of the targets of its examples.
\<close>

function batches :: "nat \<Rightarrow> 'a list \<Rightarrow> 'a list list" where
  "batches n xs = (if n = 0 \<or> xs = [] then [] else take n xs # batches n (drop n xs))"
  by pat_completeness auto
termination
  by (relation "measure (\<lambda>(n, xs). length xs)") auto

declare batches.simps [simp del]

type_synonym 'x batch = "'x list \<times> real list"

definition collate :: "('x \<times> real) list \<Rightarrow> 'x batch" where
  "collate exs = (map fst exs, map snd exs)"

definition DataLoader :: "('x \<times> real) list \<Rightarrow> int \<Rightarrow> error + 'x batch list" where
  "DataLoader ds batch_size =
     (if batch_size \<le> 0
      then Inl (ValueError ''batch_size should be a positive integer value'')
      else Inr (map collate (batches (nat batch_size) ds)))"

subsection \<open>The training pass: \<^verbatim>\<open>train\<close> (lines 128-153)\<close>

text \<open>
  One iteration of the loop over the batches (lines 134-148). The accumulator holds the
  state and the two lists \<^verbatim>\<open>targets\<close> and \<^verbatim>\<open>predicts\<close>.
\<close>

definition train_batch ::
  "('x, 'p, 'g, 'o) env \<Rightarrow> 'x batch \<Rightarrow>
     ('p, 'g, 'o) state \<times> real list \<times> real list \<Rightarrow>
     ('p, 'g, 'o) state \<times> real list \<times> real list" where
  "train_batch E b acc =
     (case (b, acc) of ((flds, target), (s, targets, predicts)) \<Rightarrow>
        let y = forward E (training s) (params s) flds;
            s1 = log_call Forward s;
            loss = criterion E y target;
            s2 = log_call Criterion s1;
            s3 = log_call ZeroGrad (s2\<lparr>grads := zero_grads E\<rparr>);
            s4 = log_call Backward (s3\<lparr>grads := backward E (params s3) flds target (grads s3)\<rparr>);
            (o', p') = optimizer_step E (opt s4) (grads s4) (params s4);
            s5 = log_call OptimizerStep (s4\<lparr>opt := o', params := p'\<rparr>)
        in (s5, targets @ target, predicts @ y))"

definition train ::
  "('x, 'p, 'g, 'o) env \<Rightarrow> 'x batch list \<Rightarrow> ('p, 'g, 'o) state \<Rightarrow>
     (error + metrics) \<times> ('p, 'g, 'o) state" where
  "train E data_loader s =
     (case foldl (\<lambda>acc b. train_batch E b acc)
             (log_call ModelTrain (s\<lparr>training := True\<rparr>), [], []) data_loader of
        (s', targets, predicts) \<Rightarrow> (regression_metrics E targets predicts, s'))"

subsection \<open>The evaluation pass: \<^verbatim>\<open>test\<close> (lines 156-171)\<close>

definition test_batch ::
  "('x, 'p, 'g, 'o) env \<Rightarrow> 'x batch \<Rightarrow>
     ('p, 'g, 'o) state \<times> real list \<times> real list \<Rightarrow>
     ('p, 'g, 'o) state \<times> real list \<times> real list" where
  "test_batch E b acc =
     (case (b, acc) of ((flds, target), (s, targets, predicts)) \<Rightarrow>
        let y = forward E (training s) (params s) flds;
            s1 = log_call Forward s
        in (s1, targets @ target, predicts @ y))"

definition test ::
  "('x, 'p, 'g, 'o) env \<Rightarrow> 'x batch list \<Rightarrow> ('p, 'g, 'o) state \<Rightarrow>
     (error + metrics) \<times> ('p, 'g, 'o) state" where
  "test E data_loader s =
     (case foldl (\<lambda>acc b. test_batch E b acc)
             (log_call ModelEval (s\<lparr>training := False\<rparr>), [], []) data_loader of
        (s', targets, predicts) \<Rightarrow> (regression_metrics E targets predicts, s'))"

section \<open>The orchestrator: \<^verbatim>\<open>main\<close> (lines 176-272)\<close>

text \<open>The arguments of \<^verbatim>\<open>main\<close>, and the module-level \<^verbatim>\<open>feature_dim\<close>.\<close>

record config =
  dataset_name :: string
  dataset_path_train :: string
  dataset_path_test :: string
  model_name :: string
  epoch :: int
  learning_rate :: real
  batch_size :: int
  weight_decay :: real
  device :: string
  save_dir :: string
  feature_dim :: int

subsection \<open>The split (lines 192-196)\<close>

text \<open>
  \<^verbatim>\<open>torch.utils.data.random_split(dataset, (a, b))\<close>: the lengths must add up to the size
  of the dataset; the two subsets are the examples at the first \<open>a\<close> and at the next
  \<open>b\<close> indices of a random permutation.
\<close>

definition random_split ::
  "('x, 'p, 'g, 'o) env \<Rightarrow> 'a list \<Rightarrow> nat \<times> nat \<Rightarrow> error + 'a list \<times> 'a list" where
  "random_split E ds lengths =
     (case lengths of (a, b) \<Rightarrow>
        if a + b \<noteq> length ds
        then Inl (ValueError
               ''Sum of input lengths does not equal the length of the input dataset!'')
        else
          let indices = randperm E (a + b)
          in Inr (map (\<lambda>i. ds ! i) (take a indices),
                  map (\<lambda>i. ds ! i) (drop a (take (a + b) indices))))"

text \<open>Line 192: \<^verbatim>\<open>int(len(dataset_train) * 0.9)\<close>.\<close>

definition train_length_of :: "nat \<Rightarrow> nat" where
  "train_length_of n = nat \<lfloor>real n * 0.9\<rfloor>"

subsection \<open>The local variables of the epoch loop\<close>

text \<open>\<^verbatim>\<open>best_test\<close> starts as the integer 0 and later holds an array of predictions.\<close>

datatype pyval = PyInt int | NdArray "real list"

text \<open>
  The variables of \<^verbatim>\<open>main\<close> that live across epochs. A variable that is assigned in
  the loop only is \<open>None\<close> until its first assignment.
\<close>

record locals =
  mae :: "real list list"
  best :: real
  best_test :: pyval
  best_mae :: real
  best_train_mae :: "real option"
  best_epoch :: "nat option"
  targets_test :: "real list option"

text \<open>Lines 215-218.\<close>

definition init_locals :: locals where
  "init_locals =
     \<lparr>mae = [], best = 1000, best_test = PyInt 0, best_mae = 0,
      best_train_mae = None, best_epoch = None, targets_test = None\<rparr>"

text \<open>The loaders and the snapshot path, fixed before the loop starts.\<close>

record 'x run_context =
  train_data_loader :: "'x batch list"
  valid_data_loader :: "'x batch list"
  test_data_loader :: "'x batch list"
  save_path :: string

subsection \<open>One epoch (lines 220-262)\<close>

text \<open>Lines 237-250: the row \<^verbatim>\<open>e\<close> of the epoch.\<close>

definition epoch_record :: "nat \<Rightarrow> metrics \<Rightarrow> metrics \<Rightarrow> metrics \<Rightarrow> real list" where
  "epoch_record epoch_i m_train m_val m_test =
     (case (m_train, m_val, m_test) of
        ((mae_train, r2_train, mse_train, _), (mae_val, r2_val, mse_val, _),
         (mae_test, r2_test, mse_test, _)) \<Rightarrow>
          [real epoch_i, mae_train, mae_val, mae_test, r2_train, r2_val, r2_test,
           sqrt mse_train, sqrt mse_val, sqrt mse_test])"

text \<open>\<^verbatim>\<open>torch.save(model, save_path)\<close>: the file holds the parameters as they are now.\<close>

definition torch_save :: "string \<Rightarrow> ('p, 'g, 'o) state \<Rightarrow> ('p, 'g, 'o) state" where
  "torch_save path s =
     log_call (TorchSave path) (s\<lparr>checkpoints := (checkpoints s)(path \<mapsto> params s)\<rparr>)"

text \<open>Lines 254-262: the best-model tracking at the end of an epoch.\<close>

definition track_best ::
  "string \<Rightarrow> nat \<Rightarrow> real \<Rightarrow> real \<Rightarrow> real \<Rightarrow> real list \<Rightarrow>
     locals \<Rightarrow> ('p, 'g, 'o) state \<Rightarrow> locals \<times> ('p, 'g, 'o) state" where
  "track_best path epoch_i mae_train mae_val mae_test predicts_test l s =
     (if mae_val < best l
      then (l\<lparr>best := mae_val, best_test := NdArray predicts_test, best_mae := mae_test,
               best_train_mae := Some mae_train, best_epoch := Some epoch_i\<rparr>,
            torch_save path s)
      else (l, s))"

definition mae_of :: "metrics \<Rightarrow> real" where
  "mae_of m = fst m"

definition mse_of :: "metrics \<Rightarrow> real" where
  "mse_of m = fst (snd (snd m))"

definition targets_of :: "metrics \<Rightarrow> real list" where
  "targets_of m = fst (snd (snd (snd m)))"

definition predicts_of :: "metrics \<Rightarrow> real list" where
  "predicts_of m = snd (snd (snd (snd m)))"

text \<open>
  Lines 223-233: the training pass and the three evaluation passes of an epoch. The
  result of the training pass is not used.
\<close>

definition epoch_passes ::
  "('x, 'p, 'g, 'o) env \<Rightarrow> 'x run_context \<Rightarrow> ('p, 'g, 'o) state \<Rightarrow>
     (error + metrics \<times> metrics \<times> metrics) \<times> ('p, 'g, 'o) state" where
  "epoch_passes E C s =
     (case train E (train_data_loader C) s of
        (Inl e, s1) \<Rightarrow> (Inl e, s1)
      | (Inr _, s1) \<Rightarrow>
     (case test E (train_data_loader C) s1 of
        (Inl e, s2) \<Rightarrow> (Inl e, s2)
      | (Inr m_train, s2) \<Rightarrow>
     (case test E (valid_data_loader C) s2 of
        (Inl e, s3) \<Rightarrow> (Inl e, s3)
      | (Inr m_val, s3) \<Rightarrow>
     (case test E (test_data_loader C) s3 of
        (Inl e, s4) \<Rightarrow> (Inl e, s4)
      | (Inr m_test, s4) \<Rightarrow> (Inr (m_train, m_val, m_test), s4)))))"

definition epoch_body ::
  "('x, 'p, 'g, 'o) env \<Rightarrow> 'x run_context \<Rightarrow> nat \<Rightarrow> locals \<Rightarrow> ('p, 'g, 'o) state \<Rightarrow>
     (error + locals) \<times> ('p, 'g, 'o) state" where
  "epoch_body E C epoch_i l s =
     (case epoch_passes E C s of
        (Inl e, s') \<Rightarrow> (Inl e, s')
      | (Inr (m_train, m_val, m_test), s') \<Rightarrow>
          let l1 = l\<lparr>targets_test := Some (targets_of m_test),
                     mae := mae l @ [epoch_record epoch_i m_train m_val m_test]\<rparr>;
              (l2, s2) = track_best (save_path C) epoch_i (mae_of m_train) (mae_of m_val)
                           (mae_of m_test) (predicts_of m_test) l1 s'
          in (Inr l2, s2))"

text \<open>Line 219: the loop over \<^verbatim>\<open>range(epoch)\<close>; an exception ends it.\<close>

fun epoch_loop ::
  "('x, 'p, 'g, 'o) env \<Rightarrow> 'x run_context \<Rightarrow> nat list \<Rightarrow> locals \<Rightarrow> ('p, 'g, 'o) state \<Rightarrow>
     (error + locals) \<times> ('p, 'g, 'o) state" where
  "epoch_loop E C [] l s = (Inr l, s)"
| "epoch_loop E C (epoch_i # rest) l s =
     (case epoch_body E C epoch_i l s of
        (Inl e, s') \<Rightarrow> (Inl e, s')
      | (Inr l', s') \<Rightarrow> epoch_loop E C rest l' s')"

subsection \<open>The reports (lines 266-272)\<close>

text \<open>\<^verbatim>\<open>str(n)\<close> for a natural number.\<close>

function str_nat :: "nat \<Rightarrow> string" where
  "str_nat n =
     (if n < 10 then [char_of (48 + n)] else str_nat (n div 10) @ [char_of (48 + n mod 10)])"
  by pat_completeness auto
termination
  by (relation "measure id") auto

declare str_nat.simps [simp del]

text \<open>The slice \<^verbatim>\<open>path[77:-10]\<close>.\<close>

definition path_slice :: "string \<Rightarrow> string" where
  "path_slice path = drop 77 (take (length path - 10) path)"

definition results_name :: "string \<Rightarrow> nat \<Rightarrow> string" where
  "results_name path_train be =
     ''results_'' @ path_slice path_train @ ''_epoch='' @ str_nat be @
     ''_lr=0.01_dropout=0.2_hidensize=256liu_GRU-5.csv''"

definition mae_name :: "string \<Rightarrow> string" where
  "mae_name path_train =
     ''mae_'' @ path_slice path_train @
     ''_epoch=60_lr=0.01_dropout=0.2_hidensize=256liu_GRU-5.csv''"

definition mae_header :: "string list" where
  "mae_header =
     [''epoch'', ''mae_train'', ''mae_val'', ''mae_test'', ''r2_train'', ''r2_val'', ''r2_test'',
      ''rmse_train'', ''rmse_val'', ''rmse_test'']"

definition to_csv ::
  "string \<Rightarrow> csv \<Rightarrow> ('p, 'z) world_scheme \<Rightarrow> ('p, 'z) world_scheme" where
  "to_csv name table s = log_call (ToCsv name) (s\<lparr>csv_files := (csv_files s)(name \<mapsto> table)\<rparr>)"

text \<open>
  Lines 266-272. Reading a variable that was never assigned raises; so does
  \<^verbatim>\<open>pd.DataFrame(0)\<close>, which is what line 267 calls while \<^verbatim>\<open>best_test\<close> still
  is the integer 0, and so does writing a table without columns under ten column names.
  The two columns of the first table have the same length whenever the line is
  reached (lemma \<open>epoch_loop_lengths\<close>).
\<close>

definition emit_reports ::
  "config \<Rightarrow> locals \<Rightarrow> ('p, 'z) world_scheme \<Rightarrow> (error + unit) \<times> ('p, 'z) world_scheme" where
  "emit_reports cfg l s =
     (case targets_test l of
        None \<Rightarrow> (Inl (UnboundLocalError ''targets_test''), s)
      | Some tt \<Rightarrow>
     (case best_test l of
        PyInt _ \<Rightarrow> (Inl (ValueError ''DataFrame constructor not properly called!''), s)
      | NdArray bt \<Rightarrow>
     (case best_epoch l of
        None \<Rightarrow> (Inl (UnboundLocalError ''best_epoch''), s)
      | Some be \<Rightarrow>
          let s1 = to_csv (results_name (dataset_path_train cfg) be)
                     \<lparr>header = [''ground_truth'', ''prediction''], index_column = False,
                      rows = map (\<lambda>(t, p). [t, p]) (zip tt bt)\<rparr> s
          in if mae l = []
             then (Inl (ValueError ''Writing 0 cols but got 10 aliases''), s1)
             else (Inr (),
                   to_csv (mae_name (dataset_path_train cfg))
                     \<lparr>header = mae_header, index_column = False, rows = mae l\<rparr> s1))))"

subsection \<open>\<^verbatim>\<open>main\<close>\<close>

definition start ::
  "'p world \<Rightarrow> 'p \<Rightarrow> 'g \<Rightarrow> 'o \<Rightarrow> ('p, 'g, 'o) state" where
  "start w p g ost =
     \<lparr>checkpoints = checkpoints w, csv_files = csv_files w, trace = trace w,
      params = p, grads = g, opt = ost, training = True\<rparr>"

definition world_of :: "('p, 'g, 'o) state \<Rightarrow> 'p world" where
  "world_of s = \<lparr>checkpoints = checkpoints s, csv_files = csv_files s, trace = trace s\<rparr>"

text \<open>
  Lines 190-203: the datasets, the split, the loaders and the model. The result is the
  context of the loop and the description of the model, or the exception.
\<close>

definition prepare ::
  "('x, 'p, 'g, 'o) env \<Rightarrow> config \<Rightarrow> 'p world \<Rightarrow>
     (error + 'x run_context \<times> model_spec) \<times> 'p world" where
  "prepare E cfg w =
     (case get_dataset (dataset_name cfg) (dataset_path_train cfg) of
        Inl e \<Rightarrow> (Inl e, w)
      | Inr dataset_train \<Rightarrow>
     (case get_dataset (dataset_name cfg) (dataset_path_test cfg) of
        Inl e \<Rightarrow> (Inl e, w)
      | Inr dataset_test \<Rightarrow>
          let train_length = train_length_of (length (load E dataset_train));
              valid_length = length (load E dataset_train) - train_length;
              w1 = log_call (RandomSplit train_length valid_length) w
          in
     (case random_split E (load E dataset_train) (train_length, valid_length) of
        Inl e \<Rightarrow> (Inl e, w1)
      | Inr (train_dataset, valid_dataset) \<Rightarrow>
     (case DataLoader train_dataset (batch_size cfg) of
        Inl e \<Rightarrow> (Inl e, w1)
      | Inr train_dl \<Rightarrow>
     (case DataLoader valid_dataset (batch_size cfg) of
        Inl e \<Rightarrow> (Inl e, w1)
      | Inr valid_dl \<Rightarrow>
     (case DataLoader (load E dataset_test) (batch_size cfg) of
        Inl e \<Rightarrow> (Inl e, w1)
      | Inr test_dl \<Rightarrow>
     (case get_model (feature_dim cfg) (field_dims E dataset_train)
             (user_field_idx E dataset_train) (item_field_idx E dataset_train)
             (model_name cfg) dataset_train of
        Inl e \<Rightarrow> (Inl e, w1)
      | Inr spec \<Rightarrow>
          (Inr (\<lparr>train_data_loader = train_dl, valid_data_loader = valid_dl,
                 test_data_loader = test_dl,
                 save_path = save_dir cfg @ ''/'' @ model_name cfg @ ''.pt''\<rparr>, spec),
           w1))))))))"

text \<open>
  Lines 203-211: the model and the optimizer are constructed; a new module is in
  training mode.
\<close>

definition initial_state ::
  "('x, 'p, 'g, 'o) env \<Rightarrow> config \<Rightarrow> model_spec \<Rightarrow> 'p world \<Rightarrow> ('p, 'g, 'o) state" where
  "initial_state E cfg spec w =
     start w (init_params E spec) (zero_grads E)
       (init_opt E (init_params E spec) (learning_rate cfg) (weight_decay cfg))"

definition main ::
  "('x, 'p, 'g, 'o) env \<Rightarrow> config \<Rightarrow> 'p world \<Rightarrow> (error + unit) \<times> 'p world" where
  "main E cfg w =
     (case prepare E cfg w of
        (Inl e, w1) \<Rightarrow> (Inl e, w1)
      | (Inr (C, spec), w1) \<Rightarrow>
     (case epoch_loop E C [0..<nat (epoch cfg)] init_locals (initial_state E cfg spec w1) of
        (Inl e, s) \<Rightarrow> (Inl e, world_of s)
      | (Inr l, s) \<Rightarrow>
          (case emit_reports cfg l s of (r, s') \<Rightarrow> (r, world_of s'))))"

section \<open>Properties of the passes\<close>

lemma log_call_simps [simp]:
  "trace (log_call ev s) = trace s @ [ev]"
  "checkpoints (log_call ev s) = checkpoints s"
  "csv_files (log_call ev s) = csv_files s"
  by (simp_all add: log_call_def)

lemma log_call_state_simps [simp]:
  "params (log_call ev s) = params s"
  "grads (log_call ev s) = grads s"
  "opt (log_call ev s) = opt s"
  "training (log_call ev s) = training s"
  by (simp_all add: log_call_def)

subsection \<open>The evaluation pass in closed form\<close>

lemma test_batch_simp:
  "test_batch E (flds, target) (s, ts, ps) =
     (s\<lparr>trace := trace s @ [Forward]\<rparr>, ts @ target,
      ps @ forward E (training s) (params s) flds)"
  by (simp add: test_batch_def log_call_def)

lemma test_fold:
  "foldl (\<lambda>acc b. test_batch E b acc) (s, ts, ps) dl =
     (s\<lparr>trace := trace s @ replicate (length dl) Forward\<rparr>,
      ts @ concat (map snd dl),
      ps @ concat (map (\<lambda>b. forward E (training s) (params s) (fst b)) dl))"
proof (induction dl arbitrary: s ts ps)
  case Nil
  then show ?case by simp
next
  case (Cons b dl)
  show ?case
    by (cases b) (simp add: Cons.IH test_batch_simp)
qed

lemma test_closed:
  "test E dl s =
     (regression_metrics E (concat (map snd dl))
        (concat (map (\<lambda>b. forward E False (params s) (fst b)) dl)),
      s\<lparr>training := False, trace := trace s @ ModelEval # replicate (length dl) Forward\<rparr>)"
  by (simp add: test_def test_fold log_call_def)

subsection \<open>The training pass in closed form\<close>

text \<open>
  The training pass as the specification words it: for each batch, in stream order, the
  prediction and the loss are computed, the gradients are cleared, the loss is
  backpropagated and the optimizer takes one step. \<open>batch_calls\<close> is the order of the
  calls for one batch; \<open>training_spec\<close> is the optimizer state and the parameters after
  the batches (each step uses the gradient of its own batch on cleared gradients);
  \<open>training_predictions\<close> is the predictions collected (each batch is predicted with the
  parameters that the steps before it produced).
\<close>

definition batch_calls :: "event list" where
  "batch_calls = [Forward, Criterion, ZeroGrad, Backward, OptimizerStep]"

fun training_spec ::
  "('x, 'p, 'g, 'o) env \<Rightarrow> 'x batch list \<Rightarrow> 'o \<times> 'p \<Rightarrow> 'o \<times> 'p" where
  "training_spec E [] op = op"
| "training_spec E (b # bs) op =
     training_spec E bs
       (optimizer_step E (fst op) (backward E (snd op) (fst b) (snd b) (zero_grads E)) (snd op))"

fun training_predictions ::
  "('x, 'p, 'g, 'o) env \<Rightarrow> bool \<Rightarrow> 'x batch list \<Rightarrow> 'o \<times> 'p \<Rightarrow> real list" where
  "training_predictions E mode [] op = []"
| "training_predictions E mode (b # bs) op =
     forward E mode (snd op) (fst b) @
     training_predictions E mode bs
       (optimizer_step E (fst op) (backward E (snd op) (fst b) (snd b) (zero_grads E)) (snd op))"

lemma train_batch_simp:
  "train_batch E (flds, target) (s, ts, ps) =
     (s\<lparr>trace := trace s @ batch_calls,
        grads := backward E (params s) flds target (zero_grads E),
        opt := fst (optimizer_step E (opt s)
                 (backward E (params s) flds target (zero_grads E)) (params s)),
        params := snd (optimizer_step E (opt s)
                 (backward E (params s) flds target (zero_grads E)) (params s))\<rparr>,
      ts @ target, ps @ forward E (training s) (params s) flds)"
  by (simp add: train_batch_def log_call_def batch_calls_def Let_def split: prod.splits)

lemma train_fold:
  "foldl (\<lambda>acc b. train_batch E b acc) (s, ts, ps) dl = (s', ts', ps') \<Longrightarrow>
     trace s' = trace s @ concat (map (\<lambda>b. batch_calls) dl) \<and>
     (opt s', params s') = training_spec E dl (opt s, params s) \<and>
     training s' = training s \<and> checkpoints s' = checkpoints s \<and>
     csv_files s' = csv_files s \<and>
     ts' = ts @ concat (map snd dl) \<and>
     ps' = ps @ training_predictions E (training s) dl (opt s, params s)"
proof (induction dl arbitrary: s ts ps)
  case Nil
  then show ?case by simp
next
  case (Cons b dl)
  obtain flds target where b: "b = (flds, target)" by (cases b)
  from Cons.prems show ?case
    unfolding b foldl_Cons train_batch_simp
    by (drule_tac Cons.IH) simp
qed

lemma train_closed:
  "trace (snd (train E dl s)) = trace s @ ModelTrain # concat (map (\<lambda>b. batch_calls) dl)"
  "(opt (snd (train E dl s)), params (snd (train E dl s))) = training_spec E dl (opt s, params s)"
  "training (snd (train E dl s)) = True"
  "checkpoints (snd (train E dl s)) = checkpoints s"
  "csv_files (snd (train E dl s)) = csv_files s"
  "fst (train E dl s) =
     regression_metrics E (concat (map snd dl))
       (training_predictions E True dl (opt s, params s))"
proof -
  obtain s' ts' ps' where f:
    "foldl (\<lambda>acc b. train_batch E b acc) (log_call ModelTrain (s\<lparr>training := True\<rparr>), [], []) dl
       = (s', ts', ps')"
    by (metis prod_cases3)
  note r = train_fold [OF f]
  have t: "train E dl s = (regression_metrics E ts' ps', s')"
    by (simp add: train_def f)
  show "trace (snd (train E dl s)) = trace s @ ModelTrain # concat (map (\<lambda>b. batch_calls) dl)"
    using r by (simp add: t)
  show "(opt (snd (train E dl s)), params (snd (train E dl s))) = training_spec E dl (opt s, params s)"
    using r by (simp add: t)
  show "training (snd (train E dl s)) = True"
    using r by (simp add: t)
  show "checkpoints (snd (train E dl s)) = checkpoints s"
    using r by (simp add: t)
  show "csv_files (snd (train E dl s)) = csv_files s"
    using r by (simp add: t)
  show "fst (train E dl s) =
     regression_metrics E (concat (map snd dl))
       (training_predictions E True dl (opt s, params s))"
    using r by (simp add: t)
qed

subsection \<open>The calls of the passes\<close>

text \<open>Kinds of calls in a trace.\<close>

definition is_pass_call :: "event \<Rightarrow> bool" where
  "is_pass_call ev =
     (ev \<in> set [ModelTrain, ModelEval, Forward, Criterion, ZeroGrad, Backward, OptimizerStep])"

definition is_split :: "event \<Rightarrow> bool" where
  "is_split ev = (case ev of RandomSplit _ _ \<Rightarrow> True | _ \<Rightarrow> False)"

definition is_save :: "event \<Rightarrow> bool" where
  "is_save ev = (case ev of TorchSave _ \<Rightarrow> True | _ \<Rightarrow> False)"

definition is_csv :: "event \<Rightarrow> bool" where
  "is_csv ev = (case ev of ToCsv _ \<Rightarrow> True | _ \<Rightarrow> False)"

lemma regression_metrics_Inr:
  "regression_metrics E ts ps = Inr m \<Longrightarrow>
     m = (mean_absolute_error ts ps, r2_score E ts ps, mean_squared_error ts ps, ts, ps) \<and>
     ts \<noteq> [] \<and> length ps = length ts"
  by (auto simp: regression_metrics_def hstack_def split: if_splits)

lemma regression_metrics_Nil:
  "regression_metrics E [] ps = Inl (ValueError ''need at least one array to concatenate'')"
  by (simp add: regression_metrics_def hstack_def)

lemma test_Inr:
  assumes "test E dl s = (Inr m, s')"
  shows "targets_of m = concat (map snd dl)"
    and "predicts_of m = concat (map (\<lambda>b. forward E False (params s) (fst b)) dl)"
    and "mae_of m = mean_absolute_error (targets_of m) (predicts_of m)"
    and "mse_of m = mean_squared_error (targets_of m) (predicts_of m)"
    and "length (predicts_of m) = length (targets_of m)"
    and "targets_of m \<noteq> []"
    and "s' = s\<lparr>training := False, trace := trace s @ ModelEval # replicate (length dl) Forward\<rparr>"
  using assms regression_metrics_Inr [of E "concat (map snd dl)"
      "concat (map (\<lambda>b. forward E False (params s) (fst b)) dl)" m]
  by (simp_all add: test_closed targets_of_def predicts_of_def mae_of_def mse_of_def)

lemma test_state:
  "snd (test E dl s) =
     s\<lparr>training := False, trace := trace s @ ModelEval # replicate (length dl) Forward\<rparr>"
  by (simp add: test_closed)

lemma is_pass_call_batch_calls: "list_all is_pass_call (concat (map (\<lambda>b. batch_calls) dl))"
  by (induction dl) (simp_all add: batch_calls_def is_pass_call_def)

lemma is_pass_call_replicate: "list_all is_pass_call (replicate k Forward)"
  by (induction k) (simp_all add: is_pass_call_def)

text \<open>What a pass leaves alone, and which calls it makes.\<close>

definition pass_step :: "('p, 'g, 'o) state \<Rightarrow> ('p, 'g, 'o) state \<Rightarrow> bool" where
  "pass_step s s' \<longleftrightarrow>
     checkpoints s' = checkpoints s \<and> csv_files s' = csv_files s \<and>
     (\<exists>tr. trace s' = trace s @ tr \<and> list_all is_pass_call tr)"

lemma pass_step_refl: "pass_step s s"
  by (simp add: pass_step_def)

lemma pass_step_trans: "pass_step s s' \<Longrightarrow> pass_step s' s'' \<Longrightarrow> pass_step s s''"
  by (auto simp: pass_step_def)

lemma train_pass_step: "pass_step s (snd (train E dl s))"
  unfolding pass_step_def
  by (simp add: train_closed is_pass_call_batch_calls) (simp add: is_pass_call_def)

lemma test_pass_step: "pass_step s (snd (test E dl s))"
  unfolding pass_step_def
  by (simp add: test_state is_pass_call_replicate) (simp add: is_pass_call_def)

lemma test_params: "params (snd (test E dl s)) = params s"
  by (simp add: test_state)

lemma epoch_passes_step: "pass_step s (snd (epoch_passes E C s))"
proof -
  let ?s1 = "snd (train E (train_data_loader C) s)"
  let ?s2 = "snd (test E (train_data_loader C) ?s1)"
  let ?s3 = "snd (test E (valid_data_loader C) ?s2)"
  let ?s4 = "snd (test E (test_data_loader C) ?s3)"
  have 1: "pass_step s ?s1" by (rule train_pass_step)
  have 2: "pass_step s ?s2" by (rule pass_step_trans [OF 1 test_pass_step])
  have 3: "pass_step s ?s3" by (rule pass_step_trans [OF 2 test_pass_step])
  have 4: "pass_step s ?s4" by (rule pass_step_trans [OF 3 test_pass_step])
  have "snd (epoch_passes E C s) \<in> {?s1, ?s2, ?s3, ?s4}"
    by (auto simp: epoch_passes_def split: prod.splits sum.splits)
  with 1 2 3 4 show ?thesis by auto
qed

lemma epoch_passes_Inr:
  assumes "epoch_passes E C s = (Inr (m_train, m_val, m_test), s')"
  shows "params s' = params (snd (train E (train_data_loader C) s))"
    and "opt s' = opt (snd (train E (train_data_loader C) s))"
    and "targets_of m_test = concat (map snd (test_data_loader C))"
    and "predicts_of m_test =
           concat (map (\<lambda>b. forward E False (params s') (fst b)) (test_data_loader C))"
    and "length (predicts_of m_test) = length (targets_of m_test)"
    and "mae_of m_val = mean_absolute_error (targets_of m_val) (predicts_of m_val)"
    and "mse_of m_train = mean_squared_error (targets_of m_train) (predicts_of m_train)"
    and "mse_of m_val = mean_squared_error (targets_of m_val) (predicts_of m_val)"
    and "mse_of m_test = mean_squared_error (targets_of m_test) (predicts_of m_test)"
    and "fst (test E (train_data_loader C) s') = Inr m_train"
    and "fst (test E (valid_data_loader C) s') = Inr m_val"
    and "fst (test E (test_data_loader C) s') = Inr m_test"
proof -
  obtain r1 s1 where t: "train E (train_data_loader C) s = (r1, s1)" by (cases "train E (train_data_loader C) s")
  obtain s2 where t1: "test E (train_data_loader C) s1 = (Inr m_train, s2)"
    using assms t by (auto simp: epoch_passes_def split: prod.splits sum.splits)
  obtain s3 where t2: "test E (valid_data_loader C) s2 = (Inr m_val, s3)"
    using assms t t1 by (auto simp: epoch_passes_def split: prod.splits sum.splits)
  have t3: "test E (test_data_loader C) s3 = (Inr m_test, s')"
    using assms t t1 t2 by (auto simp: epoch_passes_def split: prod.splits sum.splits)
  note a = test_Inr [OF t1] and b = test_Inr [OF t2] and c = test_Inr [OF t3]
  have p: "params s' = params s1" "params s3 = params s1" "params s2 = params s1"
    using a(7) b(7) c(7) by simp_all
  show "params s' = params (snd (train E (train_data_loader C) s))" using p t by simp
  show "opt s' = opt (snd (train E (train_data_loader C) s))" using a(7) b(7) c(7) t by simp
  show "targets_of m_test = concat (map snd (test_data_loader C))" by (rule c(1))
  show "predicts_of m_test =
           concat (map (\<lambda>b. forward E False (params s') (fst b)) (test_data_loader C))"
    using c(2) p by simp
  show "length (predicts_of m_test) = length (targets_of m_test)" by (rule c(5))
  show "mae_of m_val = mean_absolute_error (targets_of m_val) (predicts_of m_val)" by (rule b(3))
  show "mse_of m_train = mean_squared_error (targets_of m_train) (predicts_of m_train)" by (rule a(4))
  show "mse_of m_val = mean_squared_error (targets_of m_val) (predicts_of m_val)" by (rule b(4))
  show "mse_of m_test = mean_squared_error (targets_of m_test) (predicts_of m_test)" by (rule c(4))
  show "fst (test E (train_data_loader C) s') = Inr m_train"
    using t1 p by (simp add: test_closed)
  show "fst (test E (valid_data_loader C) s') = Inr m_val"
    using t2 p by (simp add: test_closed)
  show "fst (test E (test_data_loader C) s') = Inr m_test"
    using t3 p by (simp add: test_closed)
qed

section \<open>Properties of the epoch loop\<close>

lemma epoch_record_nth:
  "length (epoch_record i m1 m2 m3) = 10"
  "epoch_record i m1 m2 m3 ! 0 = real i"
  "epoch_record i m1 m2 m3 ! 1 = mae_of m1"
  "epoch_record i m1 m2 m3 ! 2 = mae_of m2"
  "epoch_record i m1 m2 m3 ! 3 = mae_of m3"
  "epoch_record i m1 m2 m3 ! 7 = sqrt (mse_of m1)"
  "epoch_record i m1 m2 m3 ! 8 = sqrt (mse_of m2)"
  "epoch_record i m1 m2 m3 ! 9 = sqrt (mse_of m3)"
  "epoch_record i m1 m2 m3 ! Suc 0 = mae_of m1"
  by (simp_all add: epoch_record_def mae_of_def mse_of_def split: prod.splits)

lemma torch_save_simps [simp]:
  "checkpoints (torch_save path s) = (checkpoints s)(path \<mapsto> params s)"
  "csv_files (torch_save path s) = csv_files s"
  "trace (torch_save path s) = trace s @ [TorchSave path]"
  "params (torch_save path s) = params s"
  "opt (torch_save path s) = opt s"
  by (simp_all add: torch_save_def)

lemma epoch_body_Inr:
  assumes "epoch_body E C i l s = (Inr l', s')"
  obtains m_train m_val m_test sp where
    "epoch_passes E C s = (Inr (m_train, m_val, m_test), sp)"
    "track_best (save_path C) i (mae_of m_train) (mae_of m_val) (mae_of m_test)
        (predicts_of m_test)
        (l\<lparr>targets_test := Some (targets_of m_test),
           mae := mae l @ [epoch_record i m_train m_val m_test]\<rparr>) sp = (l', s')"
  using assms
  by (auto simp: epoch_body_def Let_def split: prod.splits sum.splits)

lemma epoch_body_Inl:
  assumes "epoch_body E C i l s = (Inl e, s')"
  shows "epoch_passes E C s = (Inl e, s')"
  using assms
  by (auto simp: epoch_body_def Let_def split: prod.splits sum.splits)

lemma epoch_loop_snoc:
  "epoch_loop E C (xs @ [i]) l s =
     (case epoch_loop E C xs l s of
        (Inl e, s') \<Rightarrow> (Inl e, s')
      | (Inr l', s') \<Rightarrow> epoch_body E C i l' s')"
proof (induction xs arbitrary: l s)
  case Nil
  show ?case by (simp split: prod.splits sum.splits)
next
  case (Cons x xs)
  show ?case by (simp add: Cons.IH split: prod.splits sum.splits)
qed

lemma epoch_loop_Suc:
  assumes "epoch_loop E C [0..<Suc n] l0 s0 = (Inr l, s)"
  obtains l' s' where
    "epoch_loop E C [0..<n] l0 s0 = (Inr l', s')"
    "epoch_body E C n l' s' = (Inr l, s)"
  using assms
  by (auto simp: epoch_loop_snoc split: prod.splits sum.splits)

lemma epoch_loop_prefix:
  assumes "epoch_loop E C [0..<n] l0 s0 = (Inr l, s)" and "k \<le> n"
  shows "\<exists>lk sk. epoch_loop E C [0..<k] l0 s0 = (Inr lk, sk)"
  using assms
proof (induction n arbitrary: l s)
  case 0
  then show ?case by simp
next
  case (Suc n)
  show ?case
  proof (cases "k = Suc n")
    case True
    with Suc.prems show ?thesis by blast
  next
    case False
    with Suc.prems have "k \<le> n" by simp
    from Suc.prems(1) obtain l' s' where "epoch_loop E C [0..<n] l0 s0 = (Inr l', s')"
      by (rule epoch_loop_Suc)
    from Suc.IH [OF this \<open>k \<le> n\<close>] show ?thesis .
  qed
qed

section \<open>The claims about single passes and the tracker\<close>




text \<open>
  Claim C7. The training pass makes, for every batch and in the order of the stream, the
  calls: prediction, loss, clearing of the gradients, backpropagation, optimizer step.
  There is one optimizer step per batch, the parameters after the pass are those that
  one step per batch produces (each on the gradient of its own batch), and each batch
  is predicted with the parameters the earlier steps left.
\<close>

theorem train_steps_in_order:
  "trace (snd (train E dl s)) =
     trace s @ ModelTrain #
       concat (map (\<lambda>b. [Forward, Criterion, ZeroGrad, Backward, OptimizerStep]) dl) \<and>
   length (filter (\<lambda>ev. ev = OptimizerStep) (trace (snd (train E dl s)))) =
     length (filter (\<lambda>ev. ev = OptimizerStep) (trace s)) + length dl \<and>
   (opt (snd (train E dl s)), params (snd (train E dl s))) =
     training_spec E dl (opt s, params s) \<and>
   fst (train E dl s) =
     regression_metrics E (concat (map snd dl))
       (training_predictions E True dl (opt s, params s))"
proof -
  have "length (filter (\<lambda>ev. ev = OptimizerStep) (concat (map (\<lambda>b. batch_calls) dl))) = length dl"
    by (induction dl) (simp_all add: batch_calls_def)
  then show ?thesis
    using train_closed [of E dl s] by (simp add: batch_calls_def)
qed

text \<open>
  Claim C8. The evaluation pass changes neither the parameters nor the gradients nor the
  optimizer state nor any file, and a second evaluation pass over the same stream,
  also after evaluation passes over other streams, returns the same metrics, targets
  and predictions as the first.
\<close>

theorem evaluation_idempotent:
  "params (snd (test E dl s)) = params s \<and>
   grads (snd (test E dl s)) = grads s \<and>
   opt (snd (test E dl s)) = opt s \<and>
   checkpoints (snd (test E dl s)) = checkpoints s \<and>
   csv_files (snd (test E dl s)) = csv_files s \<and>
   fst (test E dl (snd (test E dl s))) = fst (test E dl s) \<and>
   fst (test E dl (snd (test E dl' s))) = fst (test E dl s)"
  by (simp add: test_closed)

section \<open>The invariant of the best-model tracking\<close>

text \<open>The validation MAE of each epoch so far: the third entry of each row.\<close>

definition val_maes :: "locals \<Rightarrow> real list" where
  "val_maes l = map (\<lambda>e. e ! 2) (mae l)"

text \<open>
  The first epoch that achieved the minimum: no epoch has a smaller value and every
  earlier epoch has a larger one.
\<close>

definition first_min :: "real list \<Rightarrow> nat \<Rightarrow> bool" where
  "first_min vs j \<longleftrightarrow>
     j < length vs \<and> (\<forall>i < length vs. vs ! j \<le> vs ! i) \<and> (\<forall>i < j. vs ! j < vs ! i)"

text \<open>The predictions of the model with parameters \<open>p\<close> on the test stream.\<close>

definition test_predictions ::
  "('x, 'p, 'g, 'o) env \<Rightarrow> 'x run_context \<Rightarrow> 'p \<Rightarrow> real list" where
  "test_predictions E C p = concat (map (\<lambda>b. forward E False p (fst b)) (test_data_loader C))"

definition test_targets :: "'x run_context \<Rightarrow> real list" where
  "test_targets C = concat (map snd (test_data_loader C))"

text \<open>
  What holds of the local variables \<open>l\<close> and the state \<open>s\<close> after any number of
  completed epochs of a loop that started in \<open>s0\<close>: \<^verbatim>\<open>best\<close> is a lower bound of the
  sentinel and of all validation MAEs; no CSV file was written; the calls so far are
  calls of the passes and saves; and either no epoch became best, and then nothing was
  saved, or the best epoch is the first one with the least validation MAE, which is
  below the sentinel, and the snapshot and the recorded predictions are those of the
  state at the end of that epoch.
\<close>

definition tracker_inv ::
  "('x, 'p, 'g, 'o) env \<Rightarrow> 'x run_context \<Rightarrow> ('p, 'g, 'o) state \<Rightarrow>
     locals \<Rightarrow> ('p, 'g, 'o) state \<Rightarrow> bool" where
  "tracker_inv E C s0 l s \<longleftrightarrow>
     best l \<le> 1000 \<and> (\<forall>v \<in> set (val_maes l). best l \<le> v) \<and>
     csv_files s = csv_files s0 \<and>
     (\<exists>tr. trace s = trace s0 @ tr \<and>
        list_all (\<lambda>ev. is_pass_call ev \<or> ev = TorchSave (save_path C)) tr \<and>
        (best_epoch l = None \<longrightarrow> list_all is_pass_call tr)) \<and>
     targets_test l = (if mae l = [] then None else Some (test_targets C)) \<and>
     (case best_epoch l of
        None \<Rightarrow>
          best l = 1000 \<and> best_test l = PyInt 0 \<and> best_train_mae l = None \<and>
          checkpoints s = checkpoints s0
      | Some j \<Rightarrow>
          first_min (val_maes l) j \<and> best l = val_maes l ! j \<and> best l < 1000 \<and>
          (\<exists>lj sj. epoch_loop E C [0..<Suc j] init_locals s0 = (Inr lj, sj) \<and>
             checkpoints s = (checkpoints s0)(save_path C \<mapsto> params sj) \<and>
             best_test l = NdArray (test_predictions E C (params sj)) \<and>
             length (test_predictions E C (params sj)) = length (test_targets C) \<and>
             best_mae l = mae l ! j ! 3 \<and> best_train_mae l = Some (mae l ! j ! 1)))"

lemma tracker_inv_init: "tracker_inv E C s0 init_locals s0"
  by (simp add: tracker_inv_def init_locals_def val_maes_def)

lemma tracker_invI:
  assumes "best l \<le> 1000" and "\<forall>v \<in> set (val_maes l). best l \<le> v"
    and "csv_files s = csv_files s0"
    and "\<exists>tr. trace s = trace s0 @ tr \<and>
        list_all (\<lambda>ev. is_pass_call ev \<or> ev = TorchSave (save_path C)) tr \<and>
        (best_epoch l = None \<longrightarrow> list_all is_pass_call tr)"
    and "targets_test l = (if mae l = [] then None else Some (test_targets C))"
    and "case best_epoch l of
        None \<Rightarrow>
          best l = 1000 \<and> best_test l = PyInt 0 \<and> best_train_mae l = None \<and>
          checkpoints s = checkpoints s0
      | Some j \<Rightarrow>
          first_min (val_maes l) j \<and> best l = val_maes l ! j \<and> best l < 1000 \<and>
          (\<exists>lj sj. epoch_loop E C [0..<Suc j] init_locals s0 = (Inr lj, sj) \<and>
             checkpoints s = (checkpoints s0)(save_path C \<mapsto> params sj) \<and>
             best_test l = NdArray (test_predictions E C (params sj)) \<and>
             length (test_predictions E C (params sj)) = length (test_targets C) \<and>
             best_mae l = mae l ! j ! 3 \<and> best_train_mae l = Some (mae l ! j ! 1))"
  shows "tracker_inv E C s0 l s"
  unfolding tracker_inv_def by (intro conjI assms)

lemma tracker_invD:
  assumes "tracker_inv E C s0 l s"
  shows "best l \<le> 1000" and "\<forall>v \<in> set (val_maes l). best l \<le> v"
    and "csv_files s = csv_files s0"
    and "\<exists>tr. trace s = trace s0 @ tr \<and>
        list_all (\<lambda>ev. is_pass_call ev \<or> ev = TorchSave (save_path C)) tr \<and>
        (best_epoch l = None \<longrightarrow> list_all is_pass_call tr)"
    and "targets_test l = (if mae l = [] then None else Some (test_targets C))"
    and "case best_epoch l of
        None \<Rightarrow>
          best l = 1000 \<and> best_test l = PyInt 0 \<and> best_train_mae l = None \<and>
          checkpoints s = checkpoints s0
      | Some j \<Rightarrow>
          first_min (val_maes l) j \<and> best l = val_maes l ! j \<and> best l < 1000 \<and>
          (\<exists>lj sj. epoch_loop E C [0..<Suc j] init_locals s0 = (Inr lj, sj) \<and>
             checkpoints s = (checkpoints s0)(save_path C \<mapsto> params sj) \<and>
             best_test l = NdArray (test_predictions E C (params sj)) \<and>
             length (test_predictions E C (params sj)) = length (test_targets C) \<and>
             best_mae l = mae l ! j ! 3 \<and> best_train_mae l = Some (mae l ! j ! 1))"
  by (insert assms [unfolded tracker_inv_def]) ((elim conjE, assumption)+)

lemma first_min_snoc_new:
  assumes "\<forall>u \<in> set vs. v < u"
  shows "first_min (vs @ [v]) (length vs)"
  using assms by (auto simp: first_min_def nth_append less_Suc_eq intro: less_imp_le)

lemma first_min_snoc_old:
  assumes "first_min vs j" and "vs ! j \<le> v"
  shows "first_min (vs @ [v]) j"
  using assms by (auto simp: first_min_def nth_append less_Suc_eq)

lemma list_all_pass_weaken:
  "list_all is_pass_call tr \<Longrightarrow> list_all (\<lambda>ev. is_pass_call ev \<or> ev = TorchSave p) tr"
  by (induction tr) auto

lemma tracker_inv_step:
  assumes inv: "tracker_inv E C s0 l s"
    and len: "length (mae l) = n"
    and body: "epoch_body E C n l s = (Inr l', s')"
    and loop: "epoch_loop E C [0..<Suc n] init_locals s0 = (Inr l', s')"
  shows "tracker_inv E C s0 l' s'"
proof -
  from body obtain m_train m_val m_test sp where
    passes: "epoch_passes E C s = (Inr (m_train, m_val, m_test), sp)" and
    tb: "track_best (save_path C) n (mae_of m_train) (mae_of m_val) (mae_of m_test)
           (predicts_of m_test)
           (l\<lparr>targets_test := Some (targets_of m_test),
              mae := mae l @ [epoch_record n m_train m_val m_test]\<rparr>) sp = (l', s')"
    by (rule epoch_body_Inr)
  let ?v = "mae_of m_val"
  let ?row = "epoch_record n m_train m_val m_test"
  have vals: "val_maes (l\<lparr>targets_test := Some (targets_of m_test), mae := mae l @ [?row]\<rparr>)
                = val_maes l @ [?v]"
    by (simp add: val_maes_def epoch_record_nth)
  have lv: "length (val_maes l) = n" using len by (simp add: val_maes_def)
  from epoch_passes_step [of s E C] passes have ps: "pass_step s sp" by simp
  then obtain tr1 where sp: "checkpoints sp = checkpoints s" "csv_files sp = csv_files s"
    "trace sp = trace s @ tr1" "list_all is_pass_call tr1"
    by (auto simp: pass_step_def)
  note R = epoch_passes_Inr [OF passes]
  have tt: "targets_of m_test = test_targets C" using R(3) by (simp add: test_targets_def)
  have pt: "predicts_of m_test = test_predictions E C (params sp)"
    using R(4) by (simp add: test_predictions_def)
  have plen: "length (test_predictions E C (params sp)) = length (test_targets C)"
    using R(5) tt pt by simp
  note i1 = tracker_invD(1) [OF inv] and i2 = tracker_invD(2) [OF inv]
    and i3 = tracker_invD(3) [OF inv] and i6 = tracker_invD(6) [OF inv]
  from tracker_invD(4) [OF inv] obtain tr0 where
    i4: "trace s = trace s0 @ tr0"
        "list_all (\<lambda>ev. is_pass_call ev \<or> ev = TorchSave (save_path C)) tr0"
        "best_epoch l = None \<longrightarrow> list_all is_pass_call tr0"
    by (elim exE conjE)
  show ?thesis
  proof (cases "?v < best l")
    case True
    with tb have l': "l' = l\<lparr>targets_test := Some (targets_of m_test), mae := mae l @ [?row],
                     best := ?v, best_test := NdArray (predicts_of m_test),
                     best_mae := mae_of m_test, best_train_mae := Some (mae_of m_train),
                     best_epoch := Some n\<rparr>"
      and s': "s' = torch_save (save_path C) sp"
      by (auto simp: track_best_def)
    have v': "val_maes l' = val_maes l @ [?v]"
      using vals by (simp add: l' val_maes_def)
    have a1: "best l' \<le> 1000" using True i1 by (simp add: l')
    have bl: "best l' = ?v" by (simp add: l')
    have a2: "\<forall>u \<in> set (val_maes l'). best l' \<le> u"
      unfolding v' bl using True i2 by auto
    have a3: "csv_files s' = csv_files s0" using sp i3 by (simp add: s')
    have a4: "\<exists>tr. trace s' = trace s0 @ tr \<and>
        list_all (\<lambda>ev. is_pass_call ev \<or> ev = TorchSave (save_path C)) tr \<and>
        (best_epoch l' = None \<longrightarrow> list_all is_pass_call tr)"
      using i4 sp list_all_pass_weaken [OF sp(4), of "save_path C"]
      by (intro exI [of _ "tr0 @ tr1 @ [TorchSave (save_path C)]"]) (simp add: s' l')
    have a5: "targets_test l' = (if mae l' = [] then None else Some (test_targets C))"
      by (simp add: l' tt)
    have fm: "first_min (val_maes l') n"
      unfolding v' lv [symmetric]
      by (rule first_min_snoc_new) (use True i2 in fastforce)
    have ck: "checkpoints s' = (checkpoints s0)(save_path C \<mapsto> params s')"
      using i6 sp(1) by (auto simp: s' split: option.splits)
    have a6: "first_min (val_maes l') n \<and> best l' = val_maes l' ! n \<and> best l' < 1000 \<and>
          (\<exists>lj sj. epoch_loop E C [0..<Suc n] init_locals s0 = (Inr lj, sj) \<and>
             checkpoints s' = (checkpoints s0)(save_path C \<mapsto> params sj) \<and>
             best_test l' = NdArray (test_predictions E C (params sj)) \<and>
             length (test_predictions E C (params sj)) = length (test_targets C) \<and>
             best_mae l' = mae l' ! n ! 3 \<and> best_train_mae l' = Some (mae l' ! n ! 1))"
    proof (intro conjI exI [of _ l'] exI [of _ s'])
      show "first_min (val_maes l') n" by (rule fm)
      show "best l' = val_maes l' ! n" unfolding v' bl using lv by (simp add: nth_append)
      show "best l' < 1000" using True i1 by (simp add: l')
      show "epoch_loop E C [0..<Suc n] init_locals s0 = (Inr l', s')" by (rule loop)
      show "checkpoints s' = (checkpoints s0)(save_path C \<mapsto> params s')" by (rule ck)
      show "best_test l' = NdArray (test_predictions E C (params s'))"
        by (simp add: l' s' pt)
      show "length (test_predictions E C (params s')) = length (test_targets C)"
        using plen by (simp add: s')
      show "best_mae l' = mae l' ! n ! 3" using len by (simp add: l' nth_append epoch_record_nth)
      show "best_train_mae l' = Some (mae l' ! n ! 1)"
        using len by (simp add: l' nth_append epoch_record_nth)
    qed
    have be: "best_epoch l' = Some n" by (simp add: l')
    show ?thesis
    proof (rule tracker_invI [OF a1 a2 a3 a4 a5])
      show "case best_epoch l' of
        None \<Rightarrow>
          best l' = 1000 \<and> best_test l' = PyInt 0 \<and> best_train_mae l' = None \<and>
          checkpoints s' = checkpoints s0
      | Some j \<Rightarrow>
          first_min (val_maes l') j \<and> best l' = val_maes l' ! j \<and> best l' < 1000 \<and>
          (\<exists>lj sj. epoch_loop E C [0..<Suc j] init_locals s0 = (Inr lj, sj) \<and>
             checkpoints s' = (checkpoints s0)(save_path C \<mapsto> params sj) \<and>
             best_test l' = NdArray (test_predictions E C (params sj)) \<and>
             length (test_predictions E C (params sj)) = length (test_targets C) \<and>
             best_mae l' = mae l' ! j ! 3 \<and> best_train_mae l' = Some (mae l' ! j ! 1))"
        unfolding be option.case by (rule a6)
    qed
  next
    case False
    with tb have l': "l' = l\<lparr>targets_test := Some (targets_of m_test), mae := mae l @ [?row]\<rparr>"
      and s': "s' = sp"
      by (auto simp: track_best_def)
    have v': "val_maes l' = val_maes l @ [?v]"
      using vals by (simp add: l')
    have a1: "best l' \<le> 1000" using i1 by (simp add: l')
    have bl: "best l' = best l" by (simp add: l')
    have a2: "\<forall>u \<in> set (val_maes l'). best l' \<le> u"
      unfolding v' bl using False i2 by auto
    have a3: "csv_files s' = csv_files s0" using sp i3 by (simp add: s')
    have a4: "\<exists>tr. trace s' = trace s0 @ tr \<and>
        list_all (\<lambda>ev. is_pass_call ev \<or> ev = TorchSave (save_path C)) tr \<and>
        (best_epoch l' = None \<longrightarrow> list_all is_pass_call tr)"
      using i4 sp list_all_pass_weaken [OF sp(4), of "save_path C"]
      by (intro exI [of _ "tr0 @ tr1"]) (simp add: s' l')
    have a5: "targets_test l' = (if mae l' = [] then None else Some (test_targets C))"
      by (simp add: l' tt)
    have a6: "case best_epoch l' of
        None \<Rightarrow>
          best l' = 1000 \<and> best_test l' = PyInt 0 \<and> best_train_mae l' = None \<and>
          checkpoints s' = checkpoints s0
      | Some j \<Rightarrow>
          first_min (val_maes l') j \<and> best l' = val_maes l' ! j \<and> best l' < 1000 \<and>
          (\<exists>lj sj. epoch_loop E C [0..<Suc j] init_locals s0 = (Inr lj, sj) \<and>
             checkpoints s' = (checkpoints s0)(save_path C \<mapsto> params sj) \<and>
             best_test l' = NdArray (test_predictions E C (params sj)) \<and>
             length (test_predictions E C (params sj)) = length (test_targets C) \<and>
             best_mae l' = mae l' ! j ! 3 \<and> best_train_mae l' = Some (mae l' ! j ! 1))"
    proof (cases "best_epoch l")
      case None
      with i6 sp(1) show ?thesis by (simp add: l' s')
    next
      case (Some j)
      with i6 have fm: "first_min (val_maes l) j" and bj: "best l = val_maes l ! j"
        and b1000: "best l < 1000"
        and ex: "\<exists>lj sj. epoch_loop E C [0..<Suc j] init_locals s0 = (Inr lj, sj) \<and>
             checkpoints s = (checkpoints s0)(save_path C \<mapsto> params sj) \<and>
             best_test l = NdArray (test_predictions E C (params sj)) \<and>
             length (test_predictions E C (params sj)) = length (test_targets C) \<and>
             best_mae l = mae l ! j ! 3 \<and> best_train_mae l = Some (mae l ! j ! 1)"
        by simp_all
      from fm have jn: "j < n" using lv by (simp add: first_min_def)
      have fm': "first_min (val_maes l') j"
        unfolding v' by (rule first_min_snoc_old [OF fm]) (use False bj in simp)
      have bj': "best l' = val_maes l' ! j" unfolding v' bl using bj jn lv by (simp add: nth_append)
      have mj: "mae l' ! j = mae l ! j" using jn len by (simp add: l' nth_append)
      from ex sp(1) mj b1000 fm' bj' show ?thesis
        by (simp add: Some l' s')
    qed
    show ?thesis
      by (rule tracker_invI [OF a1 a2 a3 a4 a5 a6])
  qed
qed

lemma epoch_body_mae:
  assumes "epoch_body E C i l s = (Inr l', s')"
  shows "\<exists>m_train m_val m_test sp.
           epoch_passes E C s = (Inr (m_train, m_val, m_test), sp) \<and>
           mae l' = mae l @ [epoch_record i m_train m_val m_test]"
proof -
  from assms obtain m_train m_val m_test sp where
    passes: "epoch_passes E C s = (Inr (m_train, m_val, m_test), sp)" and
    tb: "track_best (save_path C) i (mae_of m_train) (mae_of m_val) (mae_of m_test)
           (predicts_of m_test)
           (l\<lparr>targets_test := Some (targets_of m_test),
              mae := mae l @ [epoch_record i m_train m_val m_test]\<rparr>) sp = (l', s')"
    by (rule epoch_body_Inr)
  from tb have "mae l' = mae l @ [epoch_record i m_train m_val m_test]"
    by (auto simp: track_best_def split: if_splits)
  with passes show ?thesis by blast
qed

text \<open>The rows after \<open>n\<close> completed epochs.\<close>

lemma epoch_loop_rows:
  assumes "epoch_loop E C [0..<n] init_locals s0 = (Inr l, s)"
  shows "length (mae l) = n \<and>
         (\<forall>i < n. \<exists>li si m_train m_val m_test sp.
            epoch_loop E C [0..<i] init_locals s0 = (Inr li, si) \<and>
            epoch_passes E C si = (Inr (m_train, m_val, m_test), sp) \<and>
            mae l ! i = epoch_record i m_train m_val m_test)"
  using assms
proof (induction n arbitrary: l s)
  case 0
  then show ?case by (auto simp: init_locals_def)
next
  case (Suc n)
  from Suc.prems obtain l' s' where
    loop: "epoch_loop E C [0..<n] init_locals s0 = (Inr l', s')" and
    body: "epoch_body E C n l' s' = (Inr l, s)"
    by (rule epoch_loop_Suc)
  note IH = Suc.IH [OF loop]
  from epoch_body_mae [OF body] obtain m_train m_val m_test sp where
    passes: "epoch_passes E C s' = (Inr (m_train, m_val, m_test), sp)" and
    rows: "mae l = mae l' @ [epoch_record n m_train m_val m_test]"
    by blast
  have len: "length (mae l) = Suc n" using IH rows by simp
  have "\<exists>li si m_train m_val m_test sp.
            epoch_loop E C [0..<i] init_locals s0 = (Inr li, si) \<and>
            epoch_passes E C si = (Inr (m_train, m_val, m_test), sp) \<and>
            mae l ! i = epoch_record i m_train m_val m_test" if "i < Suc n" for i
  proof (cases "i = n")
    case True
    have "mae l ! n = epoch_record n m_train m_val m_test"
      using IH rows by (simp add: nth_append)
    with loop passes True show ?thesis by blast
  next
    case False
    with that have "i < n" by simp
    then have "mae l ! i = mae l' ! i" using IH rows by (simp add: nth_append)
    with IH \<open>i < n\<close> show ?thesis by metis
  qed
  with len show ?case by blast
qed

lemma epoch_loop_inv:
  assumes "epoch_loop E C [0..<n] init_locals s0 = (Inr l, s)"
  shows "tracker_inv E C s0 l s"
  using assms
proof (induction n arbitrary: l s)
  case 0
  then show ?case by (auto simp: tracker_inv_init)
next
  case (Suc n)
  from Suc.prems obtain l' s' where
    loop: "epoch_loop E C [0..<n] init_locals s0 = (Inr l', s')" and
    body: "epoch_body E C n l' s' = (Inr l, s)"
    by (rule epoch_loop_Suc)
  have len: "length (mae l') = n" using epoch_loop_rows [OF loop] by simp
  show ?case
    by (rule tracker_inv_step [OF Suc.IH [OF loop] len body Suc.prems])
qed

text \<open>A failing loop writes no CSV file either.\<close>

lemma track_best_csv:
  "track_best p i a v b pt l s = (l', s') \<Longrightarrow> csv_files s' = csv_files s"
  by (auto simp: track_best_def split: if_splits)

lemma epoch_body_csv:
  "csv_files (snd (epoch_body E C i l s)) = csv_files s"
proof -
  have p: "csv_files (snd (epoch_passes E C s)) = csv_files s"
    using epoch_passes_step [of s E C] by (simp add: pass_step_def)
  show ?thesis
    using p by (auto simp: epoch_body_def Let_def track_best_def split: prod.splits sum.splits)
qed

lemma epoch_loop_csv:
  "csv_files (snd (epoch_loop E C xs l s)) = csv_files s"
proof (induction xs arbitrary: l s)
  case Nil
  show ?case by simp
next
  case (Cons i xs)
  obtain r s' where b: "epoch_body E C i l s = (r, s')" by (cases "epoch_body E C i l s")
  have c: "csv_files s' = csv_files s" using epoch_body_csv [of E C i l s] b by simp
  show ?case
    by (cases r) (simp_all add: b c Cons.IH)
qed

section \<open>Properties of the orchestrator\<close>

lemma to_csv_simps [simp]:
  "csv_files (to_csv name t s) = (csv_files s)(name \<mapsto> t)"
  "checkpoints (to_csv name t s) = checkpoints s"
  "trace (to_csv name t s) = trace s @ [ToCsv name]"
  by (simp_all add: to_csv_def)

lemma world_of_simps [simp]:
  "csv_files (world_of s) = csv_files s"
  "checkpoints (world_of s) = checkpoints s"
  "trace (world_of s) = trace s"
  by (simp_all add: world_of_def)

lemma start_simps [simp]:
  "csv_files (start w p g ost) = csv_files w"
  "checkpoints (start w p g ost) = checkpoints w"
  "trace (start w p g ost) = trace w"
  "params (start w p g ost) = p"
  "grads (start w p g ost) = g"
  "opt (start w p g ost) = ost"
  "training (start w p g ost) = True"
  by (simp_all add: start_def)

lemma initial_state_simps [simp]:
  "csv_files (initial_state E cfg spec w) = csv_files w"
  "checkpoints (initial_state E cfg spec w) = checkpoints w"
  "trace (initial_state E cfg spec w) = trace w"
  "params (initial_state E cfg spec w) = init_params E spec"
  by (simp_all add: initial_state_def)

lemma results_name_neq_mae_name: "results_name p be \<noteq> mae_name q"
  by (simp add: results_name_def mae_name_def)

text \<open>The batches of a loader hold the examples of the dataset, in order.\<close>

lemma concat_batches: "0 < n \<Longrightarrow> concat (batches n xs) = xs"
proof (induction n xs rule: batches.induct)
  case (1 n xs)
  show ?case
  proof (cases "xs = []")
    case True
    then show ?thesis by (simp add: batches.simps)
  next
    case False
    with 1 have "concat (batches n (drop n xs)) = drop n xs" by simp
    with False 1(2) show ?thesis
      by (subst batches.simps) simp
  qed
qed

lemma batches_Nil: "batches n [] = []"
  by (simp add: batches.simps)

lemma DataLoader_targets:
  "DataLoader ds bs = Inr dl \<Longrightarrow> concat (map snd dl) = map snd ds"
proof -
  assume a: "DataLoader ds bs = Inr dl"
  then have pos: "0 < nat bs" and dl: "dl = map collate (batches (nat bs) ds)"
    by (auto simp: DataLoader_def split: if_splits)
  have "concat (map snd dl) = concat (map (map snd) (batches (nat bs) ds))"
    by (simp add: dl collate_def comp_def)
  also have "\<dots> = map snd (concat (batches (nat bs) ds))"
    by (simp add: map_concat)
  finally show ?thesis by (simp add: concat_batches [OF pos])
qed

lemma DataLoader_Nil: "DataLoader [] bs = Inr dl \<Longrightarrow> dl = []"
  by (auto simp: DataLoader_def batches_Nil split: if_splits)

text \<open>Line 192 in integer arithmetic.\<close>

lemma train_length_of_div: "train_length_of n = 9 * n div 10"
proof -
  have "real n * 0.9 = real (9 * n) / real 10" by simp
  then have "\<lfloor>real n * 0.9\<rfloor> = \<lfloor>real (9 * n) / real 10\<rfloor>" by (rule arg_cong)
  also have "\<dots> = int (9 * n div 10)" by (rule floor_divide_of_nat_eq)
  finally show ?thesis by (simp add: train_length_of_def)
qed

lemma train_length_of_le: "train_length_of n \<le> n"
  by (simp add: train_length_of_div)

lemma random_split_Inr:
  "\<exists>tr va. random_split E ds (train_length_of (length ds), length ds - train_length_of (length ds))
     = Inr (tr, va) \<and>
     (length (randperm E (length ds)) = length ds \<longrightarrow>
        length tr = train_length_of (length ds) \<and>
        length va = length ds - train_length_of (length ds))"
  using train_length_of_le [of "length ds"]
  by (auto simp: random_split_def Let_def)

subsection \<open>The preparation\<close>

lemma prepare_unknown_dataset:
  assumes "dataset_name cfg \<notin> set dataset_names"
  shows "prepare E cfg w =
           (Inl (ValueError (''unknown dataset name: '' @ dataset_name cfg)), w)"
  by (simp add: prepare_def get_dataset_unknown [OF assms])

lemma prepare_known:
  assumes dtr: "get_dataset (dataset_name cfg) (dataset_path_train cfg) = Inr dtr"
    and dte: "get_dataset (dataset_name cfg) (dataset_path_test cfg) = Inr dte"
  shows "snd (prepare E cfg w) =
           log_call (RandomSplit (train_length_of (length (load E dtr)))
             (length (load E dtr) - train_length_of (length (load E dtr)))) w"
    and "batch_size cfg \<le> 0 \<Longrightarrow>
           fst (prepare E cfg w) =
             Inl (ValueError ''batch_size should be a positive integer value'')"
    and "0 < batch_size cfg \<Longrightarrow>
           get_model (feature_dim cfg) (field_dims E dtr) (user_field_idx E dtr)
             (item_field_idx E dtr) (model_name cfg) dtr = Inl e \<Longrightarrow>
           fst (prepare E cfg w) = Inl e"
    and "prepare E cfg w = (Inr (C, spec), w1) \<Longrightarrow>
           test_targets C = map snd (load E dte) \<and>
           save_path C = save_dir cfg @ ''/'' @ model_name cfg @ ''.pt'' \<and>
           (length (randperm E (length (load E dtr))) = length (load E dtr) \<longrightarrow>
              length (concat (map snd (train_data_loader C))) =
                train_length_of (length (load E dtr)) \<and>
              length (concat (map snd (valid_data_loader C))) =
                length (load E dtr) - train_length_of (length (load E dtr)))"
proof -
  let ?N = "length (load E dtr)"
  from random_split_Inr [of E "load E dtr"] obtain tr va where
    rs: "random_split E (load E dtr) (train_length_of ?N, ?N - train_length_of ?N) = Inr (tr, va)"
    and len: "length (randperm E ?N) = ?N \<longrightarrow>
        length tr = train_length_of ?N \<and> length va = ?N - train_length_of ?N"
    by blast
  show "snd (prepare E cfg w) =
           log_call (RandomSplit (train_length_of ?N) (?N - train_length_of ?N)) w"
    by (simp add: prepare_def dtr dte rs Let_def split: sum.splits)
  show "batch_size cfg \<le> 0 \<Longrightarrow>
           fst (prepare E cfg w) =
             Inl (ValueError ''batch_size should be a positive integer value'')"
    by (simp add: prepare_def dtr dte rs Let_def DataLoader_def)
  show "0 < batch_size cfg \<Longrightarrow>
           get_model (feature_dim cfg) (field_dims E dtr) (user_field_idx E dtr)
             (item_field_idx E dtr) (model_name cfg) dtr = Inl e \<Longrightarrow>
           fst (prepare E cfg w) = Inl e"
    by (simp add: prepare_def dtr dte rs Let_def DataLoader_def)
  show "test_targets C = map snd (load E dte) \<and>
           save_path C = save_dir cfg @ ''/'' @ model_name cfg @ ''.pt'' \<and>
           (length (randperm E ?N) = ?N \<longrightarrow>
              length (concat (map snd (train_data_loader C))) = train_length_of ?N \<and>
              length (concat (map snd (valid_data_loader C))) = ?N - train_length_of ?N)"
    if p: "prepare E cfg w = (Inr (C, spec), w1)"
  proof -
    from p obtain trdl vadl tedl where
      d1: "DataLoader tr (batch_size cfg) = Inr trdl" and
      d2: "DataLoader va (batch_size cfg) = Inr vadl" and
      d3: "DataLoader (load E dte) (batch_size cfg) = Inr tedl" and
      C: "C = \<lparr>train_data_loader = trdl, valid_data_loader = vadl, test_data_loader = tedl,
               save_path = save_dir cfg @ ''/'' @ model_name cfg @ ''.pt''\<rparr>"
      by (auto simp: prepare_def dtr dte rs Let_def split: sum.splits)
    note t1 = DataLoader_targets [OF d1] and t2 = DataLoader_targets [OF d2]
      and t3 = DataLoader_targets [OF d3]
    show ?thesis
      using len by (simp add: C test_targets_def t1 t2 t3)
  qed
qed

subsection \<open>The reports\<close>

lemma emit_reports_Inr:
  assumes "emit_reports cfg l s = (Inr u, s')"
  shows "\<exists>tt bt be.
           targets_test l = Some tt \<and> best_test l = NdArray bt \<and> best_epoch l = Some be \<and>
           mae l \<noteq> [] \<and>
           s' = to_csv (mae_name (dataset_path_train cfg))
                  \<lparr>header = mae_header, index_column = False, rows = mae l\<rparr>
                  (to_csv (results_name (dataset_path_train cfg) be)
                     \<lparr>header = [''ground_truth'', ''prediction''], index_column = False,
                      rows = map (\<lambda>(t, p). [t, p]) (zip tt bt)\<rparr> s)"
  using assms
  by (auto simp: emit_reports_def Let_def split: option.splits pyval.splits if_splits)

lemma emit_reports_no_best:
  assumes "best_test l = PyInt k"
  shows "\<exists>e. emit_reports cfg l s = (Inl e, s)"
  using assms by (auto simp: emit_reports_def split: option.splits)


lemma emit_reports_checkpoints:
  "checkpoints (snd (emit_reports cfg l s)) = checkpoints s"
  by (auto simp: emit_reports_def Let_def split: option.splits pyval.splits)

subsection \<open>Decomposition of a run\<close>

lemma main_Inr:
  assumes "main E cfg w = (Inr u, w')"
  obtains C spec w1 l s s' where
    "prepare E cfg w = (Inr (C, spec), w1)"
    "epoch_loop E C [0..<nat (epoch cfg)] init_locals (initial_state E cfg spec w1) = (Inr l, s)"
    "emit_reports cfg l s = (Inr u, s')"
    "w' = world_of s'"
  using assms
  by (auto simp: main_def split: prod.splits sum.splits)


lemma get_dataset_same_class:
  assumes "name \<in> set dataset_names"
  shows "\<exists>c. \<forall>q. get_dataset name q = Inr (Dataset c q)"
proof -
  from assms consider "name = ''movielens1M''" | "name = ''movielens20M''"
    | "name = ''criteo''" | "name = ''avazu''" | "name = ''fuxtower''"
    unfolding dataset_names_def by fastforce
  then show ?thesis
  proof cases
    case 1
    then show ?thesis by (intro exI [of _ MovieLens1MDataset]) (simp add: get_dataset_def)
  next
    case 2
    then show ?thesis by (intro exI [of _ MovieLens20MDataset]) (simp add: get_dataset_def)
  next
    case 3
    then show ?thesis by (intro exI [of _ CriteoDataset]) (simp add: get_dataset_def)
  next
    case 4
    then show ?thesis by (intro exI [of _ AvazuDataset]) (simp add: get_dataset_def)
  next
    case 5
    then show ?thesis by (intro exI [of _ FuxTower]) (simp add: get_dataset_def)
  qed
qed

lemma get_dataset_cases:
  obtains (unknown) "dataset_name cfg \<notin> set dataset_names"
  | (known) c where
      "get_dataset (dataset_name cfg) (dataset_path_train cfg) = Inr (Dataset c (dataset_path_train cfg))"
      "get_dataset (dataset_name cfg) (dataset_path_test cfg) = Inr (Dataset c (dataset_path_test cfg))"
  using get_dataset_same_class [of "dataset_name cfg"] by blast


lemma prepare_world:
  "checkpoints (snd (prepare E cfg w)) = checkpoints w"
  "csv_files (snd (prepare E cfg w)) = csv_files w"
  "\<exists>tr. trace (snd (prepare E cfg w)) = trace w @ tr \<and> list_all is_split tr"
proof -
  have "checkpoints (snd (prepare E cfg w)) = checkpoints w \<and>
        csv_files (snd (prepare E cfg w)) = csv_files w \<and>
        (\<exists>tr. trace (snd (prepare E cfg w)) = trace w @ tr \<and> list_all is_split tr)"
  proof (cases cfg rule: get_dataset_cases)
    case unknown
    then show ?thesis by (simp add: prepare_unknown_dataset)
  next
    case (known c)
    show ?thesis
      by (simp add: prepare_known(1) [OF known, of E w] is_split_def)
  qed
  then show "checkpoints (snd (prepare E cfg w)) = checkpoints w"
    "csv_files (snd (prepare E cfg w)) = csv_files w"
    "\<exists>tr. trace (snd (prepare E cfg w)) = trace w @ tr \<and> list_all is_split tr"
    by blast+
qed

lemma pass_calls_filter:
  assumes "list_all is_pass_call tr"
  shows "filter is_save tr = []" and "filter is_split tr = []" and "filter is_csv tr = []"
  using assms
  by (induction tr) (auto simp: is_pass_call_def is_save_def is_split_def is_csv_def)






text \<open>A run that fails writes no CSV file.\<close>

lemma main_Inl_csv:
  assumes "fst (main E cfg w) = Inl e"
  shows "csv_files (snd (main E cfg w)) = csv_files w"
proof (cases "prepare E cfg w")
  case (Pair r w1)
  have c1: "csv_files w1 = csv_files w" using prepare_world(2) [of E cfg w] Pair by simp
  show ?thesis
  proof (cases r)
    case (Inl e')
    with Pair c1 show ?thesis by (simp add: main_def)
  next
    case (Inr x)
    obtain C spec where x: "x = (C, spec)" by (cases x)
    let ?s0 = "initial_state E cfg spec w1"
    obtain r2 s where lp: "epoch_loop E C [0..<nat (epoch cfg)] init_locals ?s0 = (r2, s)"
      by (cases "epoch_loop E C [0..<nat (epoch cfg)] init_locals ?s0")
    have c2: "csv_files s = csv_files w"
      using epoch_loop_csv [of E C "[0..<nat (epoch cfg)]" init_locals ?s0] lp c1 by simp
    show ?thesis
    proof (cases r2)
      case (Inl e')
      then show ?thesis using Pair Inr x lp c2 by (simp add: main_def)
    next
      case (Inr l)
      note inv = epoch_loop_inv [OF lp [unfolded Inr]]
      have m: "main E cfg w = (fst (emit_reports cfg l s), world_of (snd (emit_reports cfg l s)))"
        using Pair \<open>r = Inr x\<close> x lp Inr by (simp add: main_def split: prod.splits)
      with assms have f: "fst (emit_reports cfg l s) = Inl e" by simp
      have "targets_test l = None \<or> mae l \<noteq> []"
        using tracker_invD(5) [OF inv] by (auto split: if_splits)
      with f have "snd (emit_reports cfg l s) = s"
        by (auto simp: emit_reports_def Let_def split: option.splits pyval.splits if_splits)
      with m c2 show ?thesis by simp
    qed
  qed
qed

section \<open>The claims about a run\<close>

lemma prepare_Inr_datasets:
  assumes "prepare E cfg w = (Inr x, w1)"
  obtains c where
    "get_dataset (dataset_name cfg) (dataset_path_train cfg) = Inr (Dataset c (dataset_path_train cfg))"
    "get_dataset (dataset_name cfg) (dataset_path_test cfg) = Inr (Dataset c (dataset_path_test cfg))"
proof (cases cfg rule: get_dataset_cases)
  case unknown
  from prepare_unknown_dataset [OF this, of E w] assms show ?thesis by simp
next
  case (known c)
  then show ?thesis by (rule that)
qed

lemma prepare_Inr_world:
  assumes "prepare E cfg w = (Inr x, w1)"
  shows "checkpoints w1 = checkpoints w" and "csv_files w1 = csv_files w"
  using prepare_world(1,2) [of E cfg w] assms by simp_all

text \<open>
  Claim C10. The sentinel: when the preparation succeeds, the epoch loop completes and
  the validation MAE of every epoch is at least 1000, no epoch becomes best
  (\<^verbatim>\<open>best_epoch\<close> is never assigned and \<^verbatim>\<open>best\<close> still is 1000), no snapshot is
  saved during the run (the snapshot files are those from before the run and the trace
  has no new call of \<^verbatim>\<open>torch.save\<close>), and the emission of the reports after the loop
  raises, so that the run ends in an exception and no CSV file is written.
\<close>

theorem sentinel_no_best:
  assumes prep: "prepare E cfg w = (Inr (C, spec), w1)"
    and loop: "epoch_loop E C [0..<nat (epoch cfg)] init_locals (initial_state E cfg spec w1)
                 = (Inr l, s)"
    and all: "\<forall>v \<in> set (val_maes l). 1000 \<le> v"
  shows "best_epoch l = None \<and> best l = 1000 \<and>
         checkpoints s = checkpoints w \<and>
         filter is_save (trace s) = filter is_save (trace w) \<and>
         (\<exists>e. main E cfg w = (Inl e, world_of s)) \<and>
         checkpoints (snd (main E cfg w)) = checkpoints w \<and>
         csv_files (snd (main E cfg w)) = csv_files w"
proof -
  note inv = epoch_loop_inv [OF loop]
  have none: "best_epoch l = None"
  proof (cases "best_epoch l")
    case None
    then show ?thesis .
  next
    case (Some j)
    with tracker_invD(6) [OF inv] have "first_min (val_maes l) j" "best l = val_maes l ! j"
      "best l < 1000" by simp_all
    moreover from this(1) have "val_maes l ! j \<in> set (val_maes l)"
      by (simp add: first_min_def)
    ultimately show ?thesis using all by fastforce
  qed
  with tracker_invD(6) [OF inv] have n: "best l = 1000" "best_test l = PyInt 0"
    "checkpoints s = checkpoints (initial_state E cfg spec w1)"
    by simp_all
  have ck: "checkpoints s = checkpoints w"
    using n(3) prepare_Inr_world(1) [OF prep] by simp
  from tracker_invD(4) [OF inv] none obtain tr where
    tr: "trace s = trace (initial_state E cfg spec w1) @ tr" "list_all is_pass_call tr"
    by auto
  from prepare_world(3) [of E cfg w] prep obtain tr0 where
    tr0: "trace w1 = trace w @ tr0" "list_all is_split tr0" by auto
  have "filter is_save tr0 = []"
    using tr0(2) by (induction tr0) (auto simp: is_split_def is_save_def split: event.splits)
  then have sv: "filter is_save (trace s) = filter is_save (trace w)"
    using tr tr0 pass_calls_filter(1) [OF tr(2)] by simp
  from emit_reports_no_best [OF n(2), of cfg s] obtain e where
    e: "emit_reports cfg l s = (Inl e, s)" by blast
  have m: "main E cfg w = (Inl e, world_of s)"
    by (simp add: main_def prep loop e)
  have "fst (main E cfg w) = Inl e" by (simp add: m)
  from main_Inl_csv [OF this] have cs: "csv_files (snd (main E cfg w)) = csv_files w" .
  show ?thesis
    using none n(1) ck sv m cs by simp
qed

text \<open>
  Claim C2, as amended. When the epoch loop completes and the validation MAE of at least
  one epoch is below the sentinel 1000, the snapshot path holds the parameters the model
  had at the end of the first epoch that achieved the least validation MAE (ties go to
  the earliest epoch), that epoch is the best epoch, and no other snapshot file was
  written: if there was no snapshot file before the loop, the one at the snapshot path
  is the only one.
\<close>

theorem snapshot_of_first_minimum:
  assumes loop: "epoch_loop E C [0..<n] init_locals s0 = (Inr l, s)"
    and some: "\<exists>v \<in> set (val_maes l). v < 1000"
  shows "\<exists>j lj sj.
           first_min (val_maes l) j \<and> length (val_maes l) = n \<and> val_maes l ! j < 1000 \<and>
           best_epoch l = Some j \<and> best l = val_maes l ! j \<and>
           epoch_loop E C [0..<Suc j] init_locals s0 = (Inr lj, sj) \<and>
           checkpoints s = (checkpoints s0)(save_path C \<mapsto> params sj) \<and>
           (checkpoints s0 = Map.empty \<longrightarrow> dom (checkpoints s) = {save_path C})"
proof -
  note inv = epoch_loop_inv [OF loop]
  have len: "length (val_maes l) = n"
    using epoch_loop_rows [OF loop] by (simp add: val_maes_def)
  have "best_epoch l \<noteq> None"
  proof
    assume "best_epoch l = None"
    with tracker_invD(6) [OF inv] have "best l = 1000" by simp
    with tracker_invD(2) [OF inv] some show False by fastforce
  qed
  then obtain j where j: "best_epoch l = Some j" by blast
  with tracker_invD(6) [OF inv] obtain lj sj where
    f: "first_min (val_maes l) j" "best l = val_maes l ! j" "best l < 1000"
       "epoch_loop E C [0..<Suc j] init_locals s0 = (Inr lj, sj)"
       "checkpoints s = (checkpoints s0)(save_path C \<mapsto> params sj)"
    by auto
  have "checkpoints s0 = Map.empty \<longrightarrow> dom (checkpoints s) = {save_path C}"
    using f(5) by simp
  with f j len show ?thesis by auto
qed

lemma report_rows_columns:
  assumes "length ps = length ts"
  shows "map (\<lambda>r. r ! 0) (map (\<lambda>(t, p). [t, p]) (zip ts ps)) = ts"
    and "map (\<lambda>r. r ! 1) (map (\<lambda>(t, p). [t, p]) (zip ts ps)) = ps"
    and "length (map (\<lambda>(t, p). [t, p]) (zip ts ps)) = length ts"
    and "list_all (\<lambda>r. length r = 2) (map (\<lambda>(t, p). [t, p]) (zip ts ps))"
  using assms
  by (induction ts ps rule: list_induct2') auto


text \<open>
  Claim C4. A run that ends without an exception has written the prediction report: its
  header is \<^verbatim>\<open>ground_truth, prediction\<close>, no index column is written, it has one row of
  two entries per example of the test dataset (whatever the number of epochs), the first
  column is the targets of the test dataset and the second column is the predictions on
  the test stream of the model as it was at the end of the best epoch, the first epoch
  with the least validation MAE.
\<close>

theorem prediction_report:
  assumes run: "main E cfg w = (Inr u, w')"
  shows "\<exists>C spec w1 dte l s j lj sj T.
           prepare E cfg w = (Inr (C, spec), w1) \<and>
           get_dataset (dataset_name cfg) (dataset_path_test cfg) = Inr dte \<and>
           epoch_loop E C [0..<nat (epoch cfg)] init_locals (initial_state E cfg spec w1)
             = (Inr l, s) \<and>
           best_epoch l = Some j \<and> first_min (val_maes l) j \<and> j < nat (epoch cfg) \<and>
           epoch_loop E C [0..<Suc j] init_locals (initial_state E cfg spec w1) = (Inr lj, sj) \<and>
           csv_files w' (results_name (dataset_path_train cfg) j) =
             Some \<lparr>header = [''ground_truth'', ''prediction''], index_column = False,
                   rows = T\<rparr> \<and>
           length T = length (load E dte) \<and>
           list_all (\<lambda>r. length r = 2) T \<and>
           map (\<lambda>r. r ! 0) T = map snd (load E dte) \<and>
           map (\<lambda>r. r ! 1) T = test_predictions E C (params sj)"
proof -
  from run obtain C spec w1 l s s' where
    prep: "prepare E cfg w = (Inr (C, spec), w1)" and
    loop: "epoch_loop E C [0..<nat (epoch cfg)] init_locals (initial_state E cfg spec w1)
             = (Inr l, s)" and
    em: "emit_reports cfg l s = (Inr u, s')" and
    w': "w' = world_of s'"
    by (rule main_Inr)
  let ?s0 = "initial_state E cfg spec w1"
  from prep obtain c where
    dtr: "get_dataset (dataset_name cfg) (dataset_path_train cfg)
            = Inr (Dataset c (dataset_path_train cfg))" and
    dte: "get_dataset (dataset_name cfg) (dataset_path_test cfg)
            = Inr (Dataset c (dataset_path_test cfg))"
    by (rule prepare_Inr_datasets)
  let ?dte = "Dataset c (dataset_path_test cfg)"
  from prepare_known(4) [OF dtr dte prep] have tt: "test_targets C = map snd (load E ?dte)"
    by simp
  from emit_reports_Inr [OF em] obtain tt' bt be where
    e: "targets_test l = Some tt'" "best_test l = NdArray bt" "best_epoch l = Some be"
       "mae l \<noteq> []" and
    s': "s' = to_csv (mae_name (dataset_path_train cfg))
                  \<lparr>header = mae_header, index_column = False, rows = mae l\<rparr>
                  (to_csv (results_name (dataset_path_train cfg) be)
                     \<lparr>header = [''ground_truth'', ''prediction''], index_column = False,
                      rows = map (\<lambda>(t, p). [t, p]) (zip tt' bt)\<rparr> s)"
    by blast
  note inv = epoch_loop_inv [OF loop]
  from tracker_invD(5) [OF inv] e(1,4) have tt': "tt' = test_targets C" by simp
  from tracker_invD(6) [OF inv] e(2,3) obtain lj sj where
    f: "first_min (val_maes l) be"
       "epoch_loop E C [0..<Suc be] init_locals ?s0 = (Inr lj, sj)"
       "bt = test_predictions E C (params sj)"
       "length (test_predictions E C (params sj)) = length (test_targets C)"
    by auto
  have len: "length (val_maes l) = nat (epoch cfg)"
    using epoch_loop_rows [OF loop] by (simp add: val_maes_def)
  have jn: "be < nat (epoch cfg)" using f(1) len by (simp add: first_min_def)
  let ?T = "map (\<lambda>(t, p). [t, p]) (zip tt' bt)"
  have lb: "length bt = length tt'" using f(3,4) tt' by simp
  note col = report_rows_columns [OF lb]
  have fl: "csv_files w' (results_name (dataset_path_train cfg) be) =
             Some \<lparr>header = [''ground_truth'', ''prediction''], index_column = False,
                   rows = ?T\<rparr>"
    by (simp add: w' s' results_name_neq_mae_name)
  have 1: "length ?T = length (load E ?dte)" using col(3) tt' tt by simp
  have 2: "map (\<lambda>r. r ! 0) ?T = map snd (load E ?dte)" using col(1) tt' tt by simp
  have 3: "map (\<lambda>r. r ! 1) ?T = test_predictions E C (params sj)" using col(2) f(3) by simp
  from prep dte loop e(3) f(1,2) jn fl 1 col(4) 2 3 show ?thesis by blast
qed

lemma test_empty:
  assumes "concat (map snd dl) = []"
  shows "test E dl s =
           (Inl (ValueError ''need at least one array to concatenate''),
            s\<lparr>training := False, trace := trace s @ ModelEval # replicate (length dl) Forward\<rparr>)"
  unfolding test_closed assms regression_metrics_Nil ..

lemma epoch_passes_empty_test:
  assumes "concat (map snd (test_data_loader C)) = []"
  shows "\<exists>e. fst (epoch_passes E C s) = Inl e"
  by (simp add: epoch_passes_def test_empty [OF assms] split: prod.splits sum.splits)

lemma epoch_body_fst_Inl:
  assumes "fst (epoch_passes E C s) = Inl e"
  shows "fst (epoch_body E C i l s) = Inl e"
  using assms by (auto simp: epoch_body_def split: prod.splits sum.splits)

text \<open>
  Claim C5. An evaluation pass over a stream without batches, or without any example,
  ends in an exception, and so does a training pass over a stream without batches: the
  stacking of the empty list of targets raises (Python's \<^verbatim>\<open>ValueError\<close>; the
  specification calls it the empty-input error) before any metric is computed, so no
  NaN is returned. A run whose test dataset has no examples ends in an exception and
  writes no CSV file.
\<close>

theorem empty_test_split_fails:
  assumes empty: "\<forall>c. load E (Dataset c (dataset_path_test cfg)) = []"
  shows "fst (test E [] s) = Inl (ValueError ''need at least one array to concatenate'') \<and>
         fst (train E [] s) = Inl (ValueError ''need at least one array to concatenate'') \<and>
         (\<forall>dl. concat (map snd dl) = [] \<longrightarrow> (\<exists>e. fst (test E dl s) = Inl e)) \<and>
         (\<exists>e. fst (main E cfg w) = Inl e) \<and>
         csv_files (snd (main E cfg w)) = csv_files w"
proof -
  have a: "fst (test E [] s) = Inl (ValueError ''need at least one array to concatenate'')"
    by (simp add: test_closed regression_metrics_Nil)
  have a': "fst (train E [] s) = Inl (ValueError ''need at least one array to concatenate'')"
    by (simp add: train_closed(6) regression_metrics_Nil)
  have b: "\<forall>dl. concat (map snd dl) = [] \<longrightarrow> (\<exists>e. fst (test E dl s) = Inl e)"
  proof (intro allI impI)
    fix dl :: "'a batch list"
    assume "concat (map snd dl) = []"
    from test_empty [OF this, of E s] show "\<exists>e. fst (test E dl s) = Inl e" by simp
  qed
  have c: "\<exists>e. fst (main E cfg w) = Inl e"
  proof (cases "prepare E cfg w")
    case (Pair r w1)
    show ?thesis
    proof (cases r)
      case (Inl e)
      with Pair show ?thesis by (simp add: main_def)
    next
      case (Inr x)
      obtain C spec where x: "x = (C, spec)" by (cases x)
      have prep: "prepare E cfg w = (Inr (C, spec), w1)" using Pair Inr x by simp
      from prep obtain c where
        dtr: "get_dataset (dataset_name cfg) (dataset_path_train cfg)
                = Inr (Dataset c (dataset_path_train cfg))" and
        dte: "get_dataset (dataset_name cfg) (dataset_path_test cfg)
                = Inr (Dataset c (dataset_path_test cfg))"
        by (rule prepare_Inr_datasets)
      from prepare_known(4) [OF dtr dte prep] empty
      have tt: "concat (map snd (test_data_loader C)) = []"
        by (simp add: test_targets_def)
      let ?s0 = "initial_state E cfg spec w1"
      show ?thesis
      proof (cases "nat (epoch cfg)")
        case 0
        have "\<exists>e. emit_reports cfg init_locals ?s0 = (Inl e, ?s0)"
          by (rule emit_reports_no_best [of _ 0]) (simp add: init_locals_def)
        then show ?thesis
          using prep 0 by (auto simp: main_def)
      next
        case (Suc k)
        from epoch_passes_empty_test [OF tt, of E ?s0] obtain e where
          "fst (epoch_passes E C ?s0) = Inl e" by blast
        from epoch_body_fst_Inl [OF this, of 0 init_locals]
        have "fst (epoch_body E C 0 init_locals ?s0) = Inl e" .
        then have "fst (epoch_loop E C [0..<Suc k] init_locals ?s0) = Inl e"
          by (cases "epoch_body E C 0 init_locals ?s0") (simp add: upt_rec)
        then show ?thesis
          using prep Suc by (auto simp: main_def split: prod.splits)
      qed
    qed
  qed
  then obtain e where "fst (main E cfg w) = Inl e" ..
  from main_Inl_csv [OF this] have d: "csv_files (snd (main E cfg w)) = csv_files w" .
  from a a' b c d show ?thesis by blast
qed



section \<open>A worked run\<close>

text \<open>
  A small environment to run \<^verbatim>\<open>main\<close> on. The training file has two examples and the
  test file three, all with target 0. The parameters of the toy model count the
  optimizer steps taken; a model that has taken \<open>p\<close> steps predicts the \<open>p\<close>-th entry
  of \<open>vs\<close> for every example, so that with one training batch per epoch the validation
  MAE of epoch \<open>i\<close> is the absolute value of entry \<open>i + 1\<close>.
\<close>

definition toy_env :: "real list \<Rightarrow> (nat, nat, nat, nat) env" where
  "toy_env vs =
     \<lparr>load = (\<lambda>d. case d of Dataset c path \<Rightarrow>
                if path = ''train.csv'' then [(10, 0), (20, 0)]
                else if path = ''test.csv'' then [(30, 0), (40, 0), (50, 0)]
                else []),
      field_dims = (\<lambda>d. [2]),
      user_field_idx = (\<lambda>d. [0]),
      item_field_idx = (\<lambda>d. [1]),
      randperm = (\<lambda>n. rev [0..<n]),
      init_params = (\<lambda>spec. 0),
      init_opt = (\<lambda>p lr wd. 0),
      forward = (\<lambda>mode p flds. map (\<lambda>x. if p < length vs then vs ! p else 0) flds),
      criterion = (\<lambda>y target. 0),
      zero_grads = 0,
      backward = (\<lambda>p flds target g. g + 1),
      optimizer_step = (\<lambda>ost g p. (ost + 1, p + g)),
      r2_score = (\<lambda>ts ps. 0)\<rparr>"

definition toy_cfg :: "string \<Rightarrow> string \<Rightarrow> string \<Rightarrow> int \<Rightarrow> config" where
  "toy_cfg dname tpath mname n =
     \<lparr>dataset_name = dname, dataset_path_train = ''train.csv'',
      dataset_path_test = tpath, model_name = mname, epoch = n,
      learning_rate = 0.01, batch_size = 100, weight_decay = 0.000001,
      device = ''cuda:0'', save_dir = ''chkpt'', feature_dim = 31\<rparr>"

definition toy_world :: "nat world" where
  "toy_world = \<lparr>checkpoints = Map.empty, csv_files = Map.empty, trace = []\<rparr>"

definition toy_context :: "nat run_context" where
  "toy_context =
     \<lparr>train_data_loader = [([20], [0])], valid_data_loader = [([10], [0])],
      test_data_loader = [([30, 40, 50], [0, 0, 0])], save_path = ''chkpt/rnn.pt''\<rparr>"

definition toy_spec :: model_spec where
  "toy_spec =
     ModelSpec ''RecurrentNeuralNetwork'' [2]
       [(''feature_dims'', HInt 31), (''hidden_size'', HInt 256), (''num_layers'', HInt 2),
        (''mlp_dims'', HInts [512, 256, 128]), (''dropout'', HReal 0.2)]"

lemma batches_single:
  assumes "xs \<noteq> []" and "length xs \<le> n"
  shows "batches n xs = [xs]"
proof -
  from assms have "0 < n" by (cases xs) auto
  with assms show ?thesis
    by (subst batches.simps) (simp add: batches.simps)
qed

lemma toy_env_simps:
  "load (toy_env vs) (Dataset c ''train.csv'') = [(10, 0), (20, 0)]"
  "load (toy_env vs) (Dataset c ''test.csv'') = [(30, 0), (40, 0), (50, 0)]"
  "randperm (toy_env vs) n = rev [0..<n]"
  "field_dims (toy_env vs) d = [2]"
  "user_field_idx (toy_env vs) d = [0]"
  "item_field_idx (toy_env vs) d = [1]"
  "init_params (toy_env vs) spec = 0"
  "init_opt (toy_env vs) p lr wd = 0"
  "forward (toy_env vs) mode p flds = map (\<lambda>x. if p < length vs then vs ! p else 0) flds"
  "criterion (toy_env vs) y t = 0"
  "zero_grads (toy_env vs) = 0"
  "backward (toy_env vs) p flds t g = g + 1"
  "optimizer_step (toy_env vs) ost g p = (ost + 1, p + g)"
  "r2_score (toy_env vs) ts ps = 0"
  by (simp_all add: toy_env_def)

lemma toy_prepare:
  "prepare (toy_env vs) (toy_cfg ''fuxtower'' ''test.csv'' ''rnn'' n) toy_world =
     (Inr (toy_context, toy_spec), toy_world\<lparr>trace := [RandomSplit 1 1]\<rparr>)"
proof -
  have tl: "train_length_of (Suc (Suc 0)) = Suc 0"
    by (simp add: train_length_of_div)
  have rs: "random_split (toy_env vs) [(10::nat, 0::real), (20, 0)] (Suc 0, Suc 0)
              = Inr ([(20, 0)], [(10, 0)])"
    by (simp add: random_split_def toy_env_simps Let_def upt_rec)
  have d1: "DataLoader [(20::nat, 0::real)] 100 = Inr [([20], [0])]"
    by (simp add: DataLoader_def batches_single collate_def)
  have d2: "DataLoader [(10::nat, 0::real)] 100 = Inr [([10], [0])]"
    by (simp add: DataLoader_def batches_single collate_def)
  have d3: "DataLoader [(30::nat, 0::real), (40, 0), (50, 0)] 100
              = Inr [([30, 40, 50], [0, 0, 0])]"
    by (simp add: DataLoader_def batches_single collate_def)
  have gm: "get_model 31 [2] [0] [1] ''rnn'' (Dataset FuxTower ''train.csv'') = Inr toy_spec"
    by (simp add: get_model_def toy_spec_def)
  show ?thesis
    by (simp add: prepare_def toy_cfg_def get_dataset_def toy_env_simps Let_def tl rs d1 d2 d3
        gm toy_context_def toy_world_def log_call_def)
qed

definition toy_value :: "real list \<Rightarrow> nat \<Rightarrow> real" where
  "toy_value vs p = (if p < length vs then vs ! p else 0)"

text \<open>One epoch of the toy run: one optimizer step, then the three evaluation passes.\<close>

lemma toy_train:
  "train (toy_env vs) [([20], [0])] s =
     (Inr (\<bar>toy_value vs (params s)\<bar>, 0, (toy_value vs (params s))\<^sup>2, [0],
           [toy_value vs (params s)]),
      s\<lparr>training := True, grads := 1, opt := opt s + 1, params := params s + 1,
        trace := trace s @ [ModelTrain, Forward, Criterion, ZeroGrad, Backward, OptimizerStep]\<rparr>)"
  by (simp add: train_def train_batch_def toy_env_simps log_call_def regression_metrics_def
      hstack_def mean_absolute_error_def mean_squared_error_def toy_value_def Let_def)

lemma toy_test:
  "test (toy_env vs) [(flds, ts)] s =
     (regression_metrics (toy_env vs) ts (map (\<lambda>x. toy_value vs (params s)) flds),
      s\<lparr>training := False, trace := trace s @ [ModelEval, Forward]\<rparr>)"
  by (simp add: test_closed toy_env_simps toy_value_def)

lemma toy_metrics1:
  "regression_metrics (toy_env vs) [0] [v] = Inr (\<bar>v\<bar>, 0, v\<^sup>2, [0], [v])"
  by (simp add: regression_metrics_def hstack_def mean_absolute_error_def
      mean_squared_error_def toy_env_simps)

lemma toy_metrics3:
  "regression_metrics (toy_env vs) [0, 0, 0] [v, v, v] = Inr (\<bar>v\<bar>, 0, v\<^sup>2, [0, 0, 0], [v, v, v])"
  by (simp add: regression_metrics_def hstack_def mean_absolute_error_def
      mean_squared_error_def toy_env_simps)

lemma toy_passes:
  "epoch_passes (toy_env vs) toy_context s =
     (Inr ((\<bar>toy_value vs (params s + 1)\<bar>, 0, (toy_value vs (params s + 1))\<^sup>2, [0],
            [toy_value vs (params s + 1)]),
           (\<bar>toy_value vs (params s + 1)\<bar>, 0, (toy_value vs (params s + 1))\<^sup>2, [0],
            [toy_value vs (params s + 1)]),
           (\<bar>toy_value vs (params s + 1)\<bar>, 0, (toy_value vs (params s + 1))\<^sup>2, [0, 0, 0],
            [toy_value vs (params s + 1), toy_value vs (params s + 1),
             toy_value vs (params s + 1)])),
      s\<lparr>training := False, grads := 1, opt := opt s + 1, params := params s + 1,
        trace := trace s @
          [ModelTrain, Forward, Criterion, ZeroGrad, Backward, OptimizerStep,
           ModelEval, Forward, ModelEval, Forward, ModelEval, Forward]\<rparr>)"
  by (simp add: epoch_passes_def toy_context_def toy_train toy_test toy_metrics1 toy_metrics3)

text \<open>The state in which the loop of the toy run starts.\<close>

definition toy_start :: "(nat, nat, nat) state" where
  "toy_start = start (toy_world\<lparr>trace := [RandomSplit 1 1]\<rparr>) 0 0 0"

lemma toy_initial_state:
  "initial_state (toy_env vs) (toy_cfg dname tpath mname n) toy_spec
     (toy_world\<lparr>trace := [RandomSplit 1 1]\<rparr>) = toy_start"
  by (simp add: initial_state_def toy_start_def toy_env_simps)

lemma toy_context_save: "save_path toy_context = ''chkpt/rnn.pt''"
  by (simp add: toy_context_def)

lemma toy_body:
  "epoch_body (toy_env vs) toy_context i l s =
     (case track_best ''chkpt/rnn.pt'' i \<bar>toy_value vs (params s + 1)\<bar>
             \<bar>toy_value vs (params s + 1)\<bar> \<bar>toy_value vs (params s + 1)\<bar>
             [toy_value vs (params s + 1), toy_value vs (params s + 1),
              toy_value vs (params s + 1)]
             (l\<lparr>targets_test := Some [0, 0, 0],
                mae := mae l @
                  [[real i, \<bar>toy_value vs (params s + 1)\<bar>, \<bar>toy_value vs (params s + 1)\<bar>,
                    \<bar>toy_value vs (params s + 1)\<bar>, 0, 0, 0,
                    \<bar>toy_value vs (params s + 1)\<bar>, \<bar>toy_value vs (params s + 1)\<bar>,
                    \<bar>toy_value vs (params s + 1)\<bar>]]\<rparr>)
             (s\<lparr>training := False, grads := 1, opt := opt s + 1, params := params s + 1,
                trace := trace s @
                  [ModelTrain, Forward, Criterion, ZeroGrad, Backward, OptimizerStep,
                   ModelEval, Forward, ModelEval, Forward, ModelEval, Forward]\<rparr>) of
        (l2, s2) \<Rightarrow> (Inr l2, s2))"
  by (simp add: epoch_body_def toy_passes epoch_record_def mae_of_def predicts_of_def
      targets_of_def toy_context_save split: prod.splits)

text \<open>
  The run of the specification's scenario: three epochs with the validation MAEs
  1.0, 0.8 and 0.9.
\<close>

definition good_env :: "(nat, nat, nat, nat) env" where
  "good_env = toy_env [0, 1, 0.8, 0.9]"

definition good_cfg :: config where
  "good_cfg = toy_cfg ''fuxtower'' ''test.csv'' ''rnn'' 3"

definition good_locals :: locals where
  "good_locals =
     \<lparr>mae = [[0, 1, 1, 1, 0, 0, 0, 1, 1, 1],
             [1, 0.8, 0.8, 0.8, 0, 0, 0, 0.8, 0.8, 0.8],
             [2, 0.9, 0.9, 0.9, 0, 0, 0, 0.9, 0.9, 0.9]],
      best = 0.8, best_test = NdArray [0.8, 0.8, 0.8], best_mae = 0.8,
      best_train_mae = Some 0.8, best_epoch = Some 1, targets_test = Some [0, 0, 0]\<rparr>"

definition epoch_calls :: "event list" where
  "epoch_calls =
     [ModelTrain, Forward, Criterion, ZeroGrad, Backward, OptimizerStep,
      ModelEval, Forward, ModelEval, Forward, ModelEval, Forward]"

definition good_state :: "(nat, nat, nat) state" where
  "good_state =
     \<lparr>checkpoints = [''chkpt/rnn.pt'' \<mapsto> 2], csv_files = Map.empty,
      trace = RandomSplit 1 1 # epoch_calls @ TorchSave ''chkpt/rnn.pt'' # epoch_calls @
              TorchSave ''chkpt/rnn.pt'' # epoch_calls,
      params = 3, grads = 1, opt = 3, training = False\<rparr>"

lemma good_loop:
  "epoch_loop good_env toy_context [0..<3] init_locals toy_start = (Inr good_locals, good_state)"
  by (simp add: good_env_def toy_body upt_rec track_best_def torch_save_def log_call_def
      init_locals_def toy_start_def start_def toy_world_def toy_value_def
      good_locals_def good_state_def epoch_calls_def numeral_2_eq_2)

text \<open>A run in which no validation MAE is below the sentinel: two epochs, 2000 and 3000.\<close>

definition flat_env :: "(nat, nat, nat, nat) env" where
  "flat_env = toy_env [0, 2000, 3000]"

definition flat_cfg :: config where
  "flat_cfg = toy_cfg ''fuxtower'' ''test.csv'' ''rnn'' 2"

definition flat_locals :: locals where
  "flat_locals =
     \<lparr>mae = [[0, 2000, 2000, 2000, 0, 0, 0, 2000, 2000, 2000],
             [1, 3000, 3000, 3000, 0, 0, 0, 3000, 3000, 3000]],
      best = 1000, best_test = PyInt 0, best_mae = 0,
      best_train_mae = None, best_epoch = None, targets_test = Some [0, 0, 0]\<rparr>"

definition flat_state :: "(nat, nat, nat) state" where
  "flat_state =
     \<lparr>checkpoints = Map.empty, csv_files = Map.empty,
      trace = RandomSplit 1 1 # epoch_calls @ epoch_calls,
      params = 2, grads = 1, opt = 2, training = False\<rparr>"

lemma flat_loop:
  "epoch_loop flat_env toy_context [0..<2] init_locals toy_start = (Inr flat_locals, flat_state)"
  by (simp add: flat_env_def toy_body upt_rec track_best_def torch_save_def log_call_def
      init_locals_def toy_start_def start_def toy_world_def toy_value_def
      flat_locals_def flat_state_def epoch_calls_def)

lemma good_prepare:
  "prepare good_env good_cfg toy_world =
     (Inr (toy_context, toy_spec), toy_world\<lparr>trace := [RandomSplit 1 1]\<rparr>)"
  unfolding good_env_def good_cfg_def by (rule toy_prepare)

lemma flat_prepare:
  "prepare flat_env flat_cfg toy_world =
     (Inr (toy_context, toy_spec), toy_world\<lparr>trace := [RandomSplit 1 1]\<rparr>)"
  unfolding flat_env_def flat_cfg_def by (rule toy_prepare)

lemma good_cfg_simps:
  "nat (epoch good_cfg) = 3" "dataset_path_train good_cfg = ''train.csv''"
  "dataset_path_test good_cfg = ''test.csv''" "dataset_name good_cfg = ''fuxtower''"
  by (simp_all add: good_cfg_def toy_cfg_def)

lemma flat_cfg_simps:
  "nat (epoch flat_cfg) = 2" "dataset_path_train flat_cfg = ''train.csv''"
  by (simp_all add: flat_cfg_def toy_cfg_def)

lemma good_initial: 
  "initial_state good_env good_cfg toy_spec (toy_world\<lparr>trace := [RandomSplit 1 1]\<rparr>) = toy_start"
  unfolding good_env_def good_cfg_def by (rule toy_initial_state)

lemma flat_initial: 
  "initial_state flat_env flat_cfg toy_spec (toy_world\<lparr>trace := [RandomSplit 1 1]\<rparr>) = toy_start"
  unfolding flat_env_def flat_cfg_def by (rule toy_initial_state)

lemma good_main_emit:
  "main good_env good_cfg toy_world =
     (case emit_reports good_cfg good_locals good_state of (r, s') \<Rightarrow> (r, world_of s'))"
  by (simp only: main_def good_prepare prod.case sum.case good_initial good_cfg_simps good_loop)

lemma good_main: "fst (main good_env good_cfg toy_world) = Inr ()"
  by (simp add: good_main_emit emit_reports_def good_locals_def Let_def split: prod.splits)

lemma flat_main_emit:
  "main flat_env flat_cfg toy_world =
     (case emit_reports flat_cfg flat_locals flat_state of (r, s') \<Rightarrow> (r, world_of s'))"
  by (simp only: main_def flat_prepare prod.case sum.case flat_initial flat_cfg_simps flat_loop)

section \<open>The claims on the worked runs\<close>

lemma good_run: "main good_env good_cfg toy_world = (Inr (), snd (main good_env good_cfg toy_world))"
  using good_main by (cases "main good_env good_cfg toy_world") simp

lemma good_val_maes: "val_maes good_locals = [1, 0.8, 0.9]"
  by (simp add: val_maes_def good_locals_def)

lemma flat_val_maes: "val_maes flat_locals = [2000, 3000]"
  by (simp add: val_maes_def flat_locals_def)

text \<open>
  Claim C2 as stated fails on the run with the validation MAEs 2000 and 3000: the epoch
  loop completes and no snapshot file exists.
\<close>

theorem snapshot_counterexample:
  "map_sum id val_maes (fst (epoch_loop flat_env toy_context [0..<2] init_locals toy_start))
     = Inr [2000, 3000] \<and>
   dom (checkpoints (snd (epoch_loop flat_env toy_context [0..<2] init_locals toy_start))) = {}"
  by (simp add: flat_loop flat_val_maes flat_state_def)

theorem snapshot_of_first_minimum_witness:
  "\<exists>j lj sj.
     first_min (val_maes good_locals) j \<and> length (val_maes good_locals) = 3 \<and>
     val_maes good_locals ! j < 1000 \<and>
     best_epoch good_locals = Some j \<and> best good_locals = val_maes good_locals ! j \<and>
     epoch_loop good_env toy_context [0..<Suc j] init_locals toy_start = (Inr lj, sj) \<and>
     checkpoints good_state = (checkpoints toy_start)(save_path toy_context \<mapsto> params sj) \<and>
     dom (checkpoints good_state) = {save_path toy_context}"
proof -
  have some: "\<exists>v \<in> set (val_maes good_locals). v < 1000"
    by (simp add: good_val_maes)
  have empty: "checkpoints toy_start = Map.empty"
    by (simp add: toy_start_def toy_world_def)
  from snapshot_of_first_minimum [OF good_loop some] empty show ?thesis
    by blast
qed

theorem sentinel_no_best_witness:
  "best_epoch flat_locals = None \<and> best flat_locals = 1000 \<and>
   checkpoints flat_state = checkpoints toy_world \<and>
   filter is_save (trace flat_state) = filter is_save (trace toy_world) \<and>
   (\<exists>e. main flat_env flat_cfg toy_world = (Inl e, world_of flat_state)) \<and>
   checkpoints (snd (main flat_env flat_cfg toy_world)) = checkpoints toy_world \<and>
   csv_files (snd (main flat_env flat_cfg toy_world)) = csv_files toy_world"
proof -
  have loop: "epoch_loop flat_env toy_context [0..<nat (epoch flat_cfg)] init_locals
                (initial_state flat_env flat_cfg toy_spec (toy_world\<lparr>trace := [RandomSplit 1 1]\<rparr>))
              = (Inr flat_locals, flat_state)"
    by (simp only: flat_initial flat_cfg_simps flat_loop)
  have all: "\<forall>v \<in> set (val_maes flat_locals). 1000 \<le> v"
    by (simp add: flat_val_maes)
  show ?thesis
    by (rule sentinel_no_best [OF flat_prepare loop all])
qed


theorem prediction_report_witness:
  "\<exists>C spec w1 dte l s j lj sj T.
     prepare good_env good_cfg toy_world = (Inr (C, spec), w1) \<and>
     get_dataset (dataset_name good_cfg) (dataset_path_test good_cfg) = Inr dte \<and>
     epoch_loop good_env C [0..<nat (epoch good_cfg)] init_locals
       (initial_state good_env good_cfg spec w1) = (Inr l, s) \<and>
     best_epoch l = Some j \<and> first_min (val_maes l) j \<and> j < nat (epoch good_cfg) \<and>
     epoch_loop good_env C [0..<Suc j] init_locals (initial_state good_env good_cfg spec w1)
       = (Inr lj, sj) \<and>
     csv_files (snd (main good_env good_cfg toy_world))
         (results_name (dataset_path_train good_cfg) j) =
       Some \<lparr>header = [''ground_truth'', ''prediction''], index_column = False, rows = T\<rparr> \<and>
     length T = length (load good_env dte) \<and>
     list_all (\<lambda>r. length r = 2) T \<and>
     map (\<lambda>r. r ! 0) T = map snd (load good_env dte) \<and>
     map (\<lambda>r. r ! 1) T = test_predictions good_env C (params sj)"
  by (rule prediction_report [OF good_run])

text \<open>The two reports of the worked run, as written.\<close>

lemma str_nat_1: "str_nat (Suc 0) = ''1''"
  by code_simp

lemma good_reports:
  "csv_files (snd (main good_env good_cfg toy_world)) =
     [''results__epoch=1_lr=0.01_dropout=0.2_hidensize=256liu_GRU-5.csv'' \<mapsto>
        \<lparr>header = [''ground_truth'', ''prediction''], index_column = False,
         rows = [[0, 0.8], [0, 0.8], [0, 0.8]]\<rparr>,
      ''mae__epoch=60_lr=0.01_dropout=0.2_hidensize=256liu_GRU-5.csv'' \<mapsto>
        \<lparr>header = mae_header, index_column = False,
         rows = [[0, 1, 1, 1, 0, 0, 0, 1, 1, 1],
                 [1, 0.8, 0.8, 0.8, 0, 0, 0, 0.8, 0.8, 0.8],
                 [2, 0.9, 0.9, 0.9, 0, 0, 0, 0.9, 0.9, 0.9]]\<rparr>]"
  by (simp add: good_main_emit emit_reports_def good_locals_def good_state_def Let_def
      good_cfg_simps results_name_def mae_name_def path_slice_def str_nat_1)

text \<open>Runs that fail: an empty test file, an unknown dataset name, an unknown model name.\<close>

definition empty_cfg :: config where
  "empty_cfg = toy_cfg ''fuxtower'' ''empty.csv'' ''rnn'' 3"



theorem empty_test_split_fails_witness:
  "fst (test good_env [] toy_start) =
     Inl (ValueError ''need at least one array to concatenate'') \<and>
   (\<exists>e. fst (main good_env empty_cfg toy_world) = Inl e) \<and>
   csv_files (snd (main good_env empty_cfg toy_world)) = csv_files toy_world"
proof -
  have empty: "\<forall>c. load good_env (Dataset c (dataset_path_test empty_cfg)) = []"
    by (simp add: good_env_def toy_env_def empty_cfg_def toy_cfg_def)
  from empty_test_split_fails [OF empty, of toy_start toy_world] show ?thesis
    by blast
qed



end
